theory Spec2Isabelle
  imports Complex_Main
begin

section \<open>Python values\<close>

text \<open>
  Events are Python dictionaries with a fixed set of keys.  A key of a dictionary is either
  missing (\<open>Absent\<close>) or bound to a value, and the value may be Python's \<open>None\<close>; the
  two cases behave differently under \<open>d.get(k, default)\<close>, so both are kept.  The value
  types are the ones of the event schema (strings, an integer user id, a number of
  megabytes, a boolean).
\<close>

datatype 'a field = Absent | Present "'a option"

text \<open>\<open>d.get(k)\<close>: \<open>None\<close> for a missing key.\<close>

fun get :: "'a field \<Rightarrow> 'a option" where
  "get Absent = None"
| "get (Present v) = v"

text \<open>\<open>d.get(k, default)\<close>: the default only for a missing key, never for a stored \<open>None\<close>.\<close>

fun get_or :: "'a \<Rightarrow> 'a field \<Rightarrow> 'a option" where
  "get_or d Absent = Some d"
| "get_or d (Present v) = v"

datatype exn = KeyError | TypeError | AttributeError | ValueError | IndexError

record event =
  timestamp :: "string field"
  user_id :: "int field"
  user_name :: "string field"
  event_type :: "string field"
  source_ip :: "string field"
  location :: "string field"
  country :: "string field"
  device :: "string field"
  success :: "bool field"
  file_name :: "string field"
  file_size_mb :: "real field"
  action :: "string field"
  details :: "(string \<times> string) list field"
  source :: "string field"

text \<open>The dictionary with no key.\<close>

definition empty_event :: event where
  "empty_event = \<lparr> timestamp = Absent, user_id = Absent, user_name = Absent, event_type = Absent,
      source_ip = Absent, location = Absent, country = Absent, device = Absent, success = Absent,
      file_name = Absent, file_size_mb = Absent, action = Absent, details = Absent, source = Absent \<rparr>"

subsection \<open>String operations of the Python library\<close>

text \<open>\<open>s.startswith(p)\<close>.\<close>

definition startswith :: "string \<Rightarrow> string \<Rightarrow> bool" where
  "startswith s p = (take (length p) s = p)"

text \<open>\<open>w in s\<close> on strings: \<open>w\<close> occurs in \<open>s\<close> as a contiguous substring.\<close>

fun py_in :: "string \<Rightarrow> string \<Rightarrow> bool" where
  "py_in w [] = (w = [])"
| "py_in w (c # cs) = (startswith (c # cs) w \<or> py_in w cs)"

text \<open>\<open>s.lower()\<close> on ASCII text: the letters A to Z are mapped to a to z.\<close>

definition lower_char :: "char \<Rightarrow> char" where
  "lower_char c =
     (if 65 \<le> (of_char c :: nat) \<and> (of_char c :: nat) \<le> 90
      then char_of ((of_char c :: nat) + 32) else c)"

definition lower :: "string \<Rightarrow> string" where
  "lower s = map lower_char s"

text \<open>\<open>s.replace('Z', '+00:00')\<close>.\<close>

definition replace_Z :: "string \<Rightarrow> string" where
  "replace_Z s = concat (map (\<lambda>c. if c = CHR ''Z'' then ''+00:00'' else [c]) s)"

text \<open>\<open>str(v)\<close> for a value that is a string or \<open>None\<close>.\<close>

fun py_str :: "string option \<Rightarrow> string" where
  "py_str None = ''None''"
| "py_str (Some s) = s"

section \<open>The rule-based detector (ml/simple\_anomaly\_detector.py)\<close>

text \<open>
  The two timestamp parsers the detector calls, \<open>datetime.fromisoformat\<close> and
  \<open>pandas.to_datetime\<close>, belong to libraries and are parameters of the model.  A parser
  raises, or returns the missing timestamp \<open>NaT\<close> (whose \<open>hour\<close> is a NaN, for which
  every comparison is false), or returns a timestamp with an hour.
\<close>

datatype parsed = Raises exn | NaT | Hour nat

type_synonym parser = "string \<Rightarrow> parsed"

text \<open>
  \<open>datetime.fromisoformat\<close> is a function of the text alone.  \<open>pandas.to_datetime\<close> is
  not: it resolves texts such as "now" and "today" from the clock.  A parameter
  \<open>to_datetime\<close> of type \<open>parser\<close> therefore stands for \<open>pandas.to_datetime\<close> at the
  moment of one call, and the library over several calls is a \<open>clock_parser\<close>: the parser
  it is at each reading of the clock.
\<close>

type_synonym clock_parser = "string \<Rightarrow> parser"

record login_hours =
  hmin :: int
  hmax :: int
  havg :: real

text \<open>
  The average and the largest size of the files a user read; \<open>None\<close> stands for the NaN
  that pandas gives for a column with no value.
\<close>

record file_sizes =
  favg :: "real option"
  fmax :: "real option"

text \<open>
  A profile, as \<open>create_user_profiles\<close> builds it.  The lists of countries and locations
  come from \<open>unique()\<close> on a column of the training frame, where a missing cell is the
  entry \<open>None\<close>.
\<close>

record profile =
  profile_user_id :: int
  name :: "string option"
  normal_login_hours :: login_hours
  normal_countries :: "string option list"
  normal_locations :: "string option list"
  avg_files_per_day :: real
  typical_file_sizes :: file_sizes

type_synonym profiles = "int \<rightharpoonup> profile"

text \<open>
  An anomaly is a formatted message in the source; the model keeps the message kind and the
  values interpolated into it:
  \<^item> \<open>UnknownUser\<close>: "Unknown user"
  \<^item> \<open>VeryUnusualLoginTime h\<close>: "Very unusual login time: h:00"
  \<^item> \<open>OutsideNormalHours h a b\<close>: "Outside normal hours: h:00 (normal: a-b)"
  \<^item> \<open>SuspiciousCountry c\<close>: "Login from suspicious country: c"
  \<^item> \<open>UnusualLocation l\<close>: "Login from unusual location: l"
  \<^item> \<open>ExternalIP a\<close>: "Login from external IP: a"
  \<^item> \<open>ErrorParsingTimestamp e\<close>: "Error parsing timestamp: e"
  \<^item> \<open>LargeFileAccess s\<close>: "Large file access: sMB"
  \<^item> \<open>FileDownload s\<close>: "File download: sMB"
  \<^item> \<open>SensitiveFileAccess f\<close>: "Sensitive file access: f"
\<close>

datatype anomaly =
    UnknownUser
  | VeryUnusualLoginTime nat
  | OutsideNormalHours nat int int
  | SuspiciousCountry string
  | UnusualLocation "string option"
  | ExternalIP string
  | ErrorParsingTimestamp exn
  | LargeFileAccess real
  | FileDownload real
  | SensitiveFileAccess string

definition suspicious_countries :: "string list" where
  "suspicious_countries = [''Russia'', ''China'', ''North Korea'', ''Unknown'']"

definition trusted_locations :: "string list" where
  "trusted_locations = [''New York'', ''California'', ''Texas'', ''Florida'', ''Illinois'']"

definition sensitive_words :: "string list" where
  "sensitive_words = [''database'', ''customer'', ''entire'', ''backup'', ''.sql'']"

text \<open>\<open>user_id not in self.user_profiles\<close> and \<open>self.user_profiles[user_id]\<close>.\<close>

fun lookup_profile :: "profiles \<Rightarrow> int option \<Rightarrow> profile option" where
  "lookup_profile P None = None"
| "lookup_profile P (Some u) = P u"

text \<open>The hour rule (lines 91 to 97).\<close>

fun time_check :: "profile \<Rightarrow> parsed \<Rightarrow> anomaly list" where
  "time_check p (Hour h) =
     (let normal_start = hmin (normal_login_hours p);
          normal_end = hmax (normal_login_hours p)
      in if h < 6 \<or> h > 22 then [VeryUnusualLoginTime h]
         else if int h < normal_start - 1 \<or> int h > normal_end + 1
              then [OutsideNormalHours h normal_start normal_end]
              else [])"
| "time_check p _ = []"

text \<open>The country rule (lines 100 to 102).\<close>

definition country_check :: "event \<Rightarrow> anomaly list" where
  "country_check e =
     (case get_or ''Unknown'' (country e) of
        None \<Rightarrow> []
      | Some c \<Rightarrow> if c \<in> set suspicious_countries then [SuspiciousCountry c] else [])"

text \<open>
  The location rule (lines 105 to 107).  Python's \<open>None\<close> is in neither list: the
  \<open>None\<close> entries of a profile list stand for the NaN of a missing cell.
\<close>

definition location_check :: "profile \<Rightarrow> event \<Rightarrow> anomaly list" where
  "location_check p e =
     (case get_or ''Unknown'' (location e) of
        None \<Rightarrow> [UnusualLocation None]
      | Some l \<Rightarrow>
          if Some l \<notin> set (normal_locations p) \<and> l \<notin> set trusted_locations
          then [UnusualLocation (Some l)] else [])"

text \<open>
  The address rule (lines 110 to 112).  \<open>None.startswith\<close> raises an AttributeError, which
  the handler of the enclosing \<open>try\<close> turns into one more anomaly.
\<close>

definition ip_check :: "event \<Rightarrow> anomaly list" where
  "ip_check e =
     (case get_or '''' (source_ip e) of
        None \<Rightarrow> [ErrorParsingTimestamp AttributeError]
      | Some a \<Rightarrow> if \<not> startswith a ''192.168.1.'' then [ExternalIP a] else [])"

text \<open>Reading the timestamp of the event (lines 83 to 87), once the key is known to exist.\<close>

definition parse_timestamp :: "parser \<Rightarrow> parser \<Rightarrow> string option \<Rightarrow> parsed" where
  "parse_timestamp fromisoformat to_datetime v =
     (let timestamp_str = py_str v
      in if CHR ''T'' \<in> set timestamp_str
         then fromisoformat (replace_Z timestamp_str)
         else to_datetime timestamp_str)"

text \<open>
  The body of the \<open>try\<close> for a login event (lines 82 to 115).  Anomalies appended before an
  exception stay in the list; the handler appends its own message after them.
\<close>

definition login_checks :: "parser \<Rightarrow> parser \<Rightarrow> profile \<Rightarrow> event \<Rightarrow> anomaly list" where
  "login_checks fromisoformat to_datetime p e =
     (case timestamp e of
        Absent \<Rightarrow> [ErrorParsingTimestamp KeyError]
      | Present v \<Rightarrow>
          (let ts = parse_timestamp fromisoformat to_datetime v
           in case ts of
                Raises x \<Rightarrow> [ErrorParsingTimestamp x]
              | _ \<Rightarrow> time_check p ts @ country_check e @ location_check p e @ ip_check e))"

text \<open>
  The file rules (lines 119 to 132), outside any \<open>try\<close>: comparing \<open>None\<close> with a number
  and calling \<open>None.lower()\<close> raise out of the function.
\<close>

definition file_checks :: "event \<Rightarrow> exn + anomaly list" where
  "file_checks e =
     (case get_or 0 (file_size_mb e) of
        None \<Rightarrow> Inl TypeError
      | Some file_size \<Rightarrow>
          (let large = (if file_size > 100 then [LargeFileAccess file_size] else []);
               download = (if get (action e) = Some ''download'' \<and> file_size > 50
                           then [FileDownload file_size] else [])
           in case get_or '''' (file_name e) of
                None \<Rightarrow> Inl AttributeError
              | Some fname \<Rightarrow>
                  Inr (large @ download @
                       (if \<exists>word \<in> set sensitive_words. py_in word (lower fname)
                        then [SensitiveFileAccess fname] else []))))"

definition detect_rule_based_anomalies ::
  "parser \<Rightarrow> parser \<Rightarrow> profiles \<Rightarrow> event \<Rightarrow> exn + anomaly list" where
  "detect_rule_based_anomalies fromisoformat to_datetime P e =
     (case lookup_profile P (get (user_id e)) of
        None \<Rightarrow> Inr [UnknownUser]
      | Some p \<Rightarrow>
          (let anomalies = (if get (event_type e) = Some ''login''
                            then login_checks fromisoformat to_datetime p e else [])
           in if get (event_type e) = Some ''file_access''
              then (case file_checks e of
                      Inl x \<Rightarrow> Inl x
                    | Inr fs \<Rightarrow> Inr (anomalies @ fs))
              else Inr anomalies))"

record analysis_result =
  event :: event
  anomalies :: "anomaly list"
  overall_risk_score :: real
  alert_level :: string
  is_suspicious :: bool
  timestamp_analyzed :: string

text \<open>
  \<open>analyze_event\<close> (lines 136 to 162).  The reading of the clock, \<open>datetime.now().isoformat()\<close>,
  is the explicit input \<open>now\<close>; \<open>to_datetime\<close> is \<open>pandas.to_datetime\<close> at the time of
  this call.  The score is a binary floating-point number in the source;
  the products \<open>n * 0.4\<close> that occur are 0.0, 0.4, 0.8 and numbers above 1 that the \<open>min\<close>
  replaces by 1.0, and on these the comparisons against 0.6, 0.4 and 0.2 have the same
  outcome in floating point as in the reals, which the model uses.
\<close>

definition analyze_event ::
  "parser \<Rightarrow> parser \<Rightarrow> profiles \<Rightarrow> string \<Rightarrow> event \<Rightarrow> exn + analysis_result" where
  "analyze_event fromisoformat to_datetime P now e =
     (case detect_rule_based_anomalies fromisoformat to_datetime P e of
        Inl x \<Rightarrow> Inl x
      | Inr rule_anomalies \<Rightarrow>
          (let rule_score = real (length rule_anomalies) * 0.4;
               overall_score = min 1 rule_score;
               level = (if overall_score \<ge> 0.6 then ''HIGH''
                        else if overall_score \<ge> 0.4 then ''MEDIUM''
                        else if overall_score \<ge> 0.2 then ''LOW''
                        else ''NORMAL'')
           in Inr \<lparr> event = e,
                    anomalies = rule_anomalies,
                    overall_risk_score = overall_score,
                    alert_level = level,
                    is_suspicious = (overall_score \<ge> 0.4),
                    timestamp_analyzed = now \<rparr>))"

subsection \<open>More string operations\<close>

text \<open>\<open>s.endswith(x)\<close>.\<close>

definition endswith :: "string \<Rightarrow> string \<Rightarrow> bool" where
  "endswith s x = startswith (rev s) (rev x)"

text \<open>
  \<open>s.strip()\<close> on ASCII text: blanks, tabs, line ends, vertical tabs, form feeds and the
  four separator controls are removed at both ends.
\<close>

definition is_space :: "char \<Rightarrow> bool" where
  "is_space c = ((of_char c :: nat) \<in> {9, 10, 11, 12, 13, 28, 29, 30, 31, 32})"

definition strip :: "string \<Rightarrow> string" where
  "strip s = rev (dropWhile is_space (rev (dropWhile is_space s)))"

text \<open>
  \<open>int(text)\<close> for a text of ASCII decimal digits, which is what the three-digit group of
  the access-log pattern holds.  Any other text is taken to raise a ValueError (Python
  accepts some more, such as a sign or blanks around the digits).
\<close>

definition is_digit :: "char \<Rightarrow> bool" where
  "is_digit c = (48 \<le> (of_char c :: nat) \<and> (of_char c :: nat) \<le> 57)"

definition py_int :: "string \<Rightarrow> exn + int" where
  "py_int s =
     (if s \<noteq> [] \<and> list_all is_digit s
      then Inr (foldl (\<lambda>a c. 10 * a + int ((of_char c :: nat) - 48)) 0 s)
      else Inl ValueError)"

section \<open>Connectors (data/connectors)\<close>

subsection \<open>Normalisation (base\_connector.py)\<close>

text \<open>
  \<open>standardize_event\<close> (lines 71 to 87).  \<open>cls\<close> is the name of the connector class and
  \<open>now\<close> the reading of the clock, \<open>datetime.now().isoformat()\<close>.
\<close>

definition standardize_event :: "string \<Rightarrow> string \<Rightarrow> event \<Rightarrow> event" where
  "standardize_event cls now event_data =
     \<lparr> timestamp = Present (get_or now (timestamp event_data)),
       user_id = Present (get (user_id event_data)),
       user_name = Present (get (user_name event_data)),
       event_type = Present (get (event_type event_data)),
       source_ip = Present (get (source_ip event_data)),
       location = Present (get_or ''Unknown'' (location event_data)),
       country = Present (get_or ''Unknown'' (country event_data)),
       device = Present (get (device event_data)),
       success = Present (get_or True (success event_data)),
       file_name = Present (get (file_name event_data)),
       file_size_mb = Present (get (file_size_mb event_data)),
       action = Present (get (action event_data)),
       details = Present (get_or [] (details event_data)),
       source = Present (Some cls) \<rparr>"

subsection \<open>Parsing (linux\_auth\_connector.py, web\_log\_connector.py)\<close>

text \<open>
  The regular expressions of the two connectors.  Matching is done by Python's \<open>re\<close>
  module, a parameter of the model: \<open>re_groups pat s\<close> is \<open>None\<close> when the call the source
  makes for \<open>pat\<close> (\<open>re.search\<close>, or \<open>match\<close> for the access-log pattern) finds no match in
  \<open>s\<close>, and the list of the groups of the match otherwise.
  \<^item> \<open>SshLogin\<close>, \<open>SshFailed\<close>, \<open>SudoCommand\<close>: the three patterns of the auth connector,
    with three groups each (timestamp, user name, address or command).
  \<^item> \<open>AccessLog\<close>: the common-log-format pattern of the web connector, with nine groups.
  \<^item> \<open>UserPath\<close>, \<open>ProfilePath\<close>, \<open>UPath\<close>, \<open>UserQuery\<close>: the four user-name patterns of
    the web connector, with one group each.
\<close>

datatype pattern =
    SshLogin | SshFailed | SudoCommand
  | AccessLog
  | UserPath | ProfilePath | UPath | UserQuery

type_synonym regex_lib = "pattern \<Rightarrow> string \<Rightarrow> string list option"

text \<open>
  \<open>datetime.strptime(text, format)\<close> followed by \<open>isoformat()\<close>, another library parameter:
  \<open>None\<close> when \<open>strptime\<close> raises.
\<close>

type_synonym strptime_lib = "string \<Rightarrow> string \<Rightarrow> string option"

text \<open>
  \<open>LinuxAuthConnector._parse_timestamp\<close> (lines 115 to 124); \<open>year\<close> is the current year in
  decimal digits.  The bare \<open>except\<close> returns the clock reading.
\<close>

definition auth_parse_timestamp :: "strptime_lib \<Rightarrow> string \<Rightarrow> string \<Rightarrow> string \<Rightarrow> string" where
  "auth_parse_timestamp strptime year now timestamp_str =
     (case strptime (year @ '' '' @ timestamp_str) ''%Y %b %d %H:%M:%S'' of
        None \<Rightarrow> now
      | Some formatted \<Rightarrow> formatted)"

text \<open>
  The body of the \<open>try\<close> of \<open>LinuxAuthConnector.parse_event\<close> (lines 67 to 108).  Unpacking
  the groups into three names raises a ValueError when there are not three of them.  A \<open>try\<close>
  that ends without a \<open>return\<close> falls through to the final \<open>return None\<close>.
\<close>

definition auth_parse_body ::
  "regex_lib \<Rightarrow> strptime_lib \<Rightarrow> string \<Rightarrow> string \<Rightarrow> string \<Rightarrow> exn + event option" where
  "auth_parse_body re_groups strptime year now raw_event =
     (let blank = empty_event;
          std = standardize_event ''LinuxAuthConnector'' now
      in case re_groups SshLogin raw_event of
           Some [timestamp_str, username, ip] \<Rightarrow>
             Inr (Some (std (blank \<lparr>
               timestamp := Present (Some (auth_parse_timestamp strptime year now timestamp_str)),
               user_name := Present (Some username),
               event_type := Present (Some ''login''),
               source_ip := Present (Some ip),
               success := Present (Some True),
               details := Present (Some [(''method'', ''ssh''), (''raw'', raw_event)]) \<rparr>)))
         | Some _ \<Rightarrow> Inl ValueError
         | None \<Rightarrow>
        (case re_groups SshFailed raw_event of
           Some [timestamp_str, username, ip] \<Rightarrow>
             Inr (Some (std (blank \<lparr>
               timestamp := Present (Some (auth_parse_timestamp strptime year now timestamp_str)),
               user_name := Present (Some username),
               event_type := Present (Some ''login''),
               source_ip := Present (Some ip),
               success := Present (Some False),
               details := Present (Some [(''method'', ''ssh''), (''raw'', raw_event)]) \<rparr>)))
         | Some _ \<Rightarrow> Inl ValueError
         | None \<Rightarrow>
        (case re_groups SudoCommand raw_event of
           Some [timestamp_str, username, command] \<Rightarrow>
             Inr (Some (std (blank \<lparr>
               timestamp := Present (Some (auth_parse_timestamp strptime year now timestamp_str)),
               user_name := Present (Some username),
               event_type := Present (Some ''command''),
               action := Present (Some ''sudo''),
               details := Present (Some [(''command'', strip command), (''raw'', raw_event)]) \<rparr>)))
         | Some _ \<Rightarrow> Inl ValueError
         | None \<Rightarrow> Inr None)))"


text \<open>
  \<open>parse_event\<close> of the auth connector: any exception of the body is caught, reported with
  \<open>print\<close>, and the function returns \<open>None\<close>.
\<close>

definition auth_parse_event ::
  "regex_lib \<Rightarrow> strptime_lib \<Rightarrow> string \<Rightarrow> string \<Rightarrow> string \<Rightarrow> event option" where
  "auth_parse_event re_groups strptime year now raw_event =
     (case auth_parse_body re_groups strptime year now raw_event of
        Inl x \<Rightarrow> None
      | Inr r \<Rightarrow> r)"

text \<open>\<open>WebLogConnector._is_static_file\<close> and \<open>_is_bot\<close> (lines 112 to 120).\<close>

definition is_static_file :: "string \<Rightarrow> bool" where
  "is_static_file url =
     (\<exists>ext \<in> set [''.css'', ''.js'', ''.jpg'', ''.png'', ''.gif'', ''.ico'', ''.svg'', ''.woff''].
        endswith (lower url) ext)"

definition is_bot :: "string \<Rightarrow> bool" where
  "is_bot user_agent =
     (\<exists>indicator \<in> set [''bot'', ''crawler'', ''spider'', ''scraper''].
        py_in indicator (lower user_agent))"

text \<open>
  \<open>WebLogConnector._determine_event_type\<close> (lines 122 to 137).  \<open>and\<close> binds tighter than
  \<open>or\<close> in the third test, and \<open>int(status_code)\<close> is evaluated only after the test of the
  method succeeded.
\<close>

definition determine_event_type :: "string \<Rightarrow> string \<Rightarrow> string \<Rightarrow> exn + string option" where
  "determine_event_type method url status_code =
     (let url_lower = lower url
      in if py_in ''login'' url_lower \<or> py_in ''signin'' url_lower then Inr (Some ''login'')
         else if py_in ''logout'' url_lower \<or> py_in ''signout'' url_lower then Inr (Some ''logout'')
         else if py_in ''download'' url_lower \<or> (method = ''GET'' \<and> py_in ''file'' url_lower)
              then Inr (Some ''file_access'')
         else if method = ''POST''
              then (case py_int status_code of
                      Inl x \<Rightarrow> Inl x
                    | Inr n \<Rightarrow> if n = 200 then Inr (Some ''application_use'') else Inr None)
         else if method = ''GET''
              then (case py_int status_code of
                      Inl x \<Rightarrow> Inl x
                    | Inr n \<Rightarrow> if n = 200 then Inr (Some ''page_view'') else Inr None)
         else Inr None)"

text \<open>
  \<open>WebLogConnector._extract_user_from_url\<close> (lines 139 to 154): the first pattern that is
  found gives the name; \<open>match.group(1)\<close> raises an IndexError on a match without groups.
\<close>

fun extract_user :: "regex_lib \<Rightarrow> pattern list \<Rightarrow> string \<Rightarrow> exn + string" where
  "extract_user re_groups [] url = Inr ''unknown''"
| "extract_user re_groups (pat # pats) url =
     (case re_groups pat url of
        None \<Rightarrow> extract_user re_groups pats url
      | Some [] \<Rightarrow> Inl IndexError
      | Some (g # gs) \<Rightarrow> Inr g)"

definition extract_user_from_url :: "regex_lib \<Rightarrow> string \<Rightarrow> exn + string" where
  "extract_user_from_url re_groups url =
     extract_user re_groups [UserPath, ProfilePath, UPath, UserQuery] url"

text \<open>\<open>WebLogConnector._parse_timestamp\<close> (lines 156 to 163).\<close>

definition web_parse_timestamp :: "strptime_lib \<Rightarrow> string \<Rightarrow> string \<Rightarrow> string" where
  "web_parse_timestamp strptime now timestamp_str =
     (case strptime timestamp_str ''%d/%b/%Y:%H:%M:%S %z'' of
        None \<Rightarrow> now
      | Some formatted \<Rightarrow> formatted)"

text \<open>
  The body of the \<open>try\<close> of \<open>WebLogConnector.parse_event\<close> (lines 75 to 105).  The entries of
  the dictionary are evaluated in the order they are written.
\<close>

definition web_parse_body :: "regex_lib \<Rightarrow> strptime_lib \<Rightarrow> string \<Rightarrow> string \<Rightarrow> exn + event option" where
  "web_parse_body re_groups strptime now raw_event =
     (case re_groups AccessLog raw_event of
        None \<Rightarrow> Inr None
      | Some [ip, timestamp_str, method, url, protocol, status_code, nbytes, referer, user_agent] \<Rightarrow>
          if is_static_file url \<or> is_bot user_agent then Inr None
          else (case determine_event_type method url status_code of
                  Inl x \<Rightarrow> Inl x
                | Inr None \<Rightarrow> Inr None
                | Inr (Some etype) \<Rightarrow>
                   (case extract_user_from_url re_groups url of
                      Inl x \<Rightarrow> Inl x
                    | Inr uname \<Rightarrow>
                       (case py_int status_code of
                          Inl x \<Rightarrow> Inl x
                        | Inr code \<Rightarrow>
                            Inr (Some (standardize_event ''WebLogConnector'' now (empty_event \<lparr>
                              timestamp := Present (Some (web_parse_timestamp strptime now timestamp_str)),
                              user_name := Present (Some uname),
                              event_type := Present (Some etype),
                              source_ip := Present (Some ip),
                              success := Present (Some (code < 400)),
                              details := Present (Some [(''method'', method), (''url'', url),
                                  (''status_code'', status_code), (''user_agent'', user_agent),
                                  (''size'', nbytes), (''raw'', raw_event)]) \<rparr>))))))
      | Some _ \<Rightarrow> Inl ValueError)"

definition web_parse_event :: "regex_lib \<Rightarrow> strptime_lib \<Rightarrow> string \<Rightarrow> string \<Rightarrow> event option" where
  "web_parse_event re_groups strptime now raw_event =
     (case web_parse_body re_groups strptime now raw_event of
        Inl x \<Rightarrow> None
      | Inr r \<Rightarrow> r)"

subsection \<open>Incremental reading (fetch\_events)\<close>

text \<open>
  A snapshot of the file system at one call: a path has no file, or a file with its content
  and a flag telling whether opening and reading it succeeds.  The content is ASCII text, so
  that the size in bytes is the number of characters and an offset is a position in the text.
\<close>

record log_file =
  content :: string
  readable :: bool

type_synonym filesystem = "string \<Rightarrow> log_file option"

text \<open>\<open>_get_file_size\<close>: the size, and 0 when \<open>os.path.getsize\<close> raises.\<close>

definition get_file_size :: "filesystem \<Rightarrow> string \<Rightarrow> nat" where
  "get_file_size fs file_path =
     (case fs file_path of None \<Rightarrow> 0 | Some f \<Rightarrow> length (content f))"

text \<open>
  \<open>f.readlines()\<close> in text mode: a carriage return with its line feed, and a carriage return
  alone, both read as one line feed; each line keeps its line feed.
\<close>

fun universal_newlines :: "string \<Rightarrow> string" where
  "universal_newlines [] = []"
| "universal_newlines [c] = [if c = CHR 0x0D then CHR 0x0A else c]"
| "universal_newlines (c # d # cs) =
     (if c = CHR 0x0D \<and> d = CHR 0x0A then CHR 0x0A # universal_newlines cs
      else if c = CHR 0x0D then CHR 0x0A # universal_newlines (d # cs)
      else c # universal_newlines (d # cs))"

fun split_lines :: "string \<Rightarrow> string \<Rightarrow> string list" where
  "split_lines cur [] = (if cur = [] then [] else [cur])"
| "split_lines cur (c # cs) =
     (if c = CHR 0x0A then (cur @ [c]) # split_lines [] cs else split_lines (cur @ [c]) cs)"

definition readlines :: "string \<Rightarrow> string list" where
  "readlines s = split_lines [] (universal_newlines s)"

text \<open>
  The state of a file connector: the monitored paths and the read position of each.
\<close>

record connector =
  log_files :: "string list"
  last_positions :: "string \<rightharpoonup> nat"

text \<open>Whether \<open>open\<close> and the reading of the file succeed.\<close>

definition can_read :: "filesystem \<Rightarrow> string \<Rightarrow> bool" where
  "can_read fs file_path = (case fs file_path of None \<Rightarrow> False | Some f \<Rightarrow> readable f)"

text \<open>\<open>self.last_positions.get(log_file, 0)\<close>.\<close>

definition last_position :: "(string \<rightharpoonup> nat) \<Rightarrow> string \<Rightarrow> nat" where
  "last_position positions path = (case positions path of None \<Rightarrow> 0 | Some n \<Rightarrow> n)"

text \<open>
  One round of the loop of \<open>fetch_events\<close> (lines 46 to 62; the same text is in the web and
  the database connector): the lines yielded for one file and the positions after it.  An
  exception of \<open>open\<close> or of the reading is caught and printed, and nothing else happens.
\<close>

definition fetch_file ::
  "filesystem \<Rightarrow> (string \<rightharpoonup> nat) \<Rightarrow> string \<Rightarrow> string list \<times> (string \<rightharpoonup> nat)" where
  "fetch_file fs positions path =
     (let current_size = get_file_size fs path
      in if current_size > last_position positions path
         then (case fs path of
                 None \<Rightarrow> ([], positions)
               | Some f \<Rightarrow>
                   if readable f
                   then (map strip (readlines (drop (last_position positions path) (content f))),
                         positions(path \<mapsto> current_size))
                   else ([], positions))
         else ([], positions))"

fun fetch_files ::
  "filesystem \<Rightarrow> (string \<rightharpoonup> nat) \<Rightarrow> string list \<Rightarrow> string list \<times> (string \<rightharpoonup> nat)" where
  "fetch_files fs positions [] = ([], positions)"
| "fetch_files fs positions (path # rest) =
     (let (new_lines, positions1) = fetch_file fs positions path;
          (more, positions2) = fetch_files fs positions1 rest
      in (new_lines @ more, positions2))"

text \<open>
  \<open>fetch_events\<close> with the generator run to its end, as the monitoring loop and
  \<open>collect_recent_events\<close> do: all the lines yielded, and the connector afterwards.
\<close>

definition fetch_events :: "filesystem \<Rightarrow> connector \<Rightarrow> string list \<times> connector" where
  "fetch_events fs c =
     (let (out, positions) = fetch_files fs (last_positions c) (log_files c)
      in (out, c \<lparr> last_positions := positions \<rparr>))"

section \<open>Profile construction (create\_user\_profiles)\<close>

text \<open>
  The training frame: its column names and its rows.  A row is a dictionary of cells; a cell
  that is missing or \<open>None\<close> is the NaN of pandas, so a cell is read with \<open>get\<close>.
\<close>

record dataframe =
  columns :: "string list"
  rows :: "event list"

text \<open>\<open>Series.unique()\<close>: the distinct values, in the order of their first occurrence.\<close>

definition unique :: "'a list \<Rightarrow> 'a list" where
  "unique xs = rev (remdups (rev xs))"

text \<open>An integer in decimal digits, as an f-string formats it.\<close>

fun str_nat :: "nat \<Rightarrow> string" where
  "str_nat n =
     (if n < 10 then [char_of (48 + n)]
      else str_nat (n div 10) @ [char_of (48 + n mod 10)])"

declare str_nat.simps [simp del]

definition str_int :: "int \<Rightarrow> string" where
  "str_int i = (if i < 0 then CHR ''-'' # str_nat (nat (- i)) else str_nat (nat i))"

text \<open>
  The hour of one row, after \<open>pd.to_datetime\<close> on the timestamp column: \<open>None\<close> for the NaN
  hour of a missing timestamp; a timestamp the parser rejects raises.
\<close>

definition row_hour :: "parser \<Rightarrow> event \<Rightarrow> exn + nat option" where
  "row_hour to_datetime r =
     (case get (timestamp r) of
        None \<Rightarrow> Inr None
      | Some s \<Rightarrow>
          (case to_datetime s of
             Raises x \<Rightarrow> Inl x
           | NaT \<Rightarrow> Inr None
           | Hour h \<Rightarrow> Inr (Some h)))"

fun row_hours :: "parser \<Rightarrow> event list \<Rightarrow> exn + nat option list" where
  "row_hours to_datetime [] = Inr []"
| "row_hours to_datetime (r # rs) =
     (case row_hour to_datetime r of
        Inl x \<Rightarrow> Inl x
      | Inr h \<Rightarrow>
          (case row_hours to_datetime rs of
             Inl x \<Rightarrow> Inl x
           | Inr hs \<Rightarrow> Inr (h # hs)))"

text \<open>The values of a column that are not NaN, which \<open>min\<close>, \<open>max\<close> and \<open>mean\<close> work on.\<close>

definition present :: "'a option list \<Rightarrow> 'a list" where
  "present xs = concat (map (\<lambda>x. case x of None \<Rightarrow> [] | Some v \<Rightarrow> [v]) xs)"

text \<open>
  \<open>int(series.min())\<close> and \<open>int(series.max())\<close>: the result of \<open>min\<close> on a column with no
  value is NaN, and \<open>int\<close> of a NaN raises a ValueError.
\<close>

definition int_min :: "nat list \<Rightarrow> exn + int" where
  "int_min hs = (case hs of [] \<Rightarrow> Inl ValueError | h # t \<Rightarrow> Inr (int (fold min t h)))"

definition int_max :: "nat list \<Rightarrow> exn + int" where
  "int_max hs = (case hs of [] \<Rightarrow> Inl ValueError | h # t \<Rightarrow> Inr (int (fold max t h)))"

text \<open>\<open>float(series.mean())\<close> and \<open>float(series.max())\<close>, NaN on a column with no value.\<close>

definition mean :: "real list \<Rightarrow> real option" where
  "mean xs = (if xs = [] then None else Some (sum_list xs / real (length xs)))"

definition maximum :: "real list \<Rightarrow> real option" where
  "maximum xs = (case xs of [] \<Rightarrow> None | x # t \<Rightarrow> Some (fold max t x))"

text \<open>The rows of one user, \<open>df[df['user_id'] == user_id]\<close>.\<close>

definition user_rows :: "dataframe \<Rightarrow> int \<Rightarrow> event list" where
  "user_rows df uid = filter (\<lambda>r. get (user_id r) = Some uid) (rows df)"

text \<open>The hour column of the login rows, \<open>login_data['hour']\<close>.\<close>

definition login_hour_column :: "event list \<Rightarrow> nat option list \<Rightarrow> nat option list" where
  "login_hour_column user_data hours =
     map snd (filter (\<lambda>(r, h). get (event_type r) = Some ''login'') (zip user_data hours))"

text \<open>
  The entry \<open>name\<close> of the profile (line 37); \<open>iloc[0]\<close> raises an IndexError on no row.
\<close>

definition profile_name :: "dataframe \<Rightarrow> event list \<Rightarrow> int \<Rightarrow> exn + string option" where
  "profile_name df user_data uid =
     (if ''user_name'' \<in> set (columns df)
      then (case user_data of
              [] \<Rightarrow> Inl IndexError
            | r # rs \<Rightarrow> Inr (get (user_name r)))
      else Inr (Some (''User '' @ str_int uid)))"

text \<open>
  The entry \<open>normal_login_hours\<close> (lines 38 to 42): three tests of \<open>len(login_data) > 0\<close>,
  evaluated in the order min, max, avg.
\<close>

definition login_hour_range :: "nat option list \<Rightarrow> exn + login_hours" where
  "login_hour_range login_hours =
     (case (if length login_hours > 0 then int_min (present login_hours) else Inr 9) of
        Inl x \<Rightarrow> Inl x
      | Inr lo \<Rightarrow>
     (case (if length login_hours > 0 then int_max (present login_hours) else Inr 17) of
        Inl x \<Rightarrow> Inl x
      | Inr hi \<Rightarrow>
          Inr \<lparr> hmin = lo, hmax = hi,
                havg = (if length login_hours > 0
                        then real (sum_list (present login_hours))
                             / real (length (present login_hours))
                        else 13) \<rparr>))"

text \<open>The entries \<open>avg_files_per_day\<close> and \<open>typical_file_sizes\<close> (lines 45 to 49).\<close>

definition files_per_day :: "event list \<Rightarrow> real" where
  "files_per_day file_data =
     (if length file_data > 0 then real (length file_data) / 30 else 0)"

definition file_size_range :: "dataframe \<Rightarrow> event list \<Rightarrow> file_sizes" where
  "file_size_range df file_data =
     (let sizes = present (map (\<lambda>r. get (file_size_mb r)) file_data)
      in \<lparr> favg = (if length file_data > 0 \<and> ''file_size_mb'' \<in> set (columns df)
                    then mean sizes else Some 0),
            fmax = (if length file_data > 0 \<and> ''file_size_mb'' \<in> set (columns df)
                    then maximum sizes else Some 0) \<rparr>)"

text \<open>
  The body of the loop of \<open>create_user_profiles\<close> (lines 25 to 50) for the user \<open>uid\<close>.  Reading
  a column the frame does not have raises a KeyError; the entries of the profile are
  evaluated in the order they are written.
\<close>

definition user_profile :: "parser \<Rightarrow> dataframe \<Rightarrow> int \<Rightarrow> exn + profile" where
  "user_profile to_datetime df uid =
     (let user_data = user_rows df uid
      in if ''timestamp'' \<notin> set (columns df) then Inl KeyError
         else case row_hours to_datetime user_data of
           Inl x \<Rightarrow> Inl x
         | Inr hours \<Rightarrow>
         if ''event_type'' \<notin> set (columns df) then Inl KeyError
         else
          (let login_hours = login_hour_column user_data hours;
               file_data = filter (\<lambda>r. get (event_type r) = Some ''file_access'') user_data
           in case profile_name df user_data uid of
                Inl x \<Rightarrow> Inl x
              | Inr nm \<Rightarrow>
             (case login_hour_range login_hours of
                Inl x \<Rightarrow> Inl x
              | Inr hour_range \<Rightarrow>
                Inr \<lparr> profile_user_id = uid,
                      name = nm,
                      normal_login_hours = hour_range,
                      normal_countries =
                        (if ''country'' \<in> set (columns df)
                         then unique (map (\<lambda>r. get (country r)) user_data)
                         else [Some ''United States'']),
                      normal_locations =
                        (if ''location'' \<in> set (columns df)
                         then unique (map (\<lambda>r. get (location r)) user_data)
                         else [Some ''Unknown'']),
                      avg_files_per_day = files_per_day file_data,
                      typical_file_sizes = file_size_range df file_data \<rparr>)))"

text \<open>
  The loop over \<open>df['user_id'].unique()\<close>; a missing user id is a NaN, on which the entry
  \<open>int(user_id)\<close> raises a ValueError.
\<close>

fun build_profiles :: "parser \<Rightarrow> dataframe \<Rightarrow> int option list \<Rightarrow> profiles \<Rightarrow> exn + profiles" where
  "build_profiles to_datetime df [] P = Inr P"
| "build_profiles to_datetime df (None # ids) P = Inl ValueError"
| "build_profiles to_datetime df (Some uid # ids) P =
     (case user_profile to_datetime df uid of
        Inl x \<Rightarrow> Inl x
      | Inr p \<Rightarrow> build_profiles to_datetime df ids (P(uid \<mapsto> p)))"

definition create_user_profiles :: "parser \<Rightarrow> dataframe \<Rightarrow> exn + profiles" where
  "create_user_profiles to_datetime df =
     (if ''user_id'' \<notin> set (columns df) then Inl KeyError
      else build_profiles to_datetime df (unique (map (\<lambda>r. get (user_id r)) (rows df))) Map.empty)"

section \<open>Example inputs\<close>

text \<open>
  A sample stand-in for the timestamp parsers, used in the examples only: it reads the hour
  of a text of the shape \<open>YYYY-MM-DDTHH:MM:SS\<close> and raises on any other text.
\<close>

definition iso_hour :: parser where
  "iso_hour s =
     (if length s = 19 \<and> s ! 10 = CHR ''T'' \<and> s ! 11 \<in> set ''012'' \<and> s ! 12 \<in> set ''0123456789''
      then Hour (10 * (of_char (s ! 11) - 48) + (of_char (s ! 12) - 48))
      else Raises ValueError)"

text \<open>A user with the office hours 9 to 17, known in New York.\<close>

definition office_profile :: profile where
  "office_profile = \<lparr> profile_user_id = 1, name = Some ''Sarah Johnson'',
      normal_login_hours = \<lparr> hmin = 9, hmax = 17, havg = 13 \<rparr>,
      normal_countries = [Some ''United States''], normal_locations = [Some ''New York''],
      avg_files_per_day = 0, typical_file_sizes = \<lparr> favg = Some 0, fmax = Some 0 \<rparr> \<rparr>"

definition office_profiles :: profiles where
  "office_profiles = [1 \<mapsto> office_profile]"

text \<open>A login of that user at three in the morning, from Russia and a public address.\<close>

definition night_login :: event where
  "night_login = empty_event \<lparr> timestamp := Present (Some ''2024-01-15T03:12:45''),
      user_id := Present (Some 1), event_type := Present (Some ''login''),
      source_ip := Present (Some ''203.0.113.45''), location := Present (Some ''New York''),
      country := Present (Some ''Russia'') \<rparr>"

text \<open>The same login by a user the profile table does not know.\<close>

definition stranger_login :: event where
  "stranger_login = night_login \<lparr> user_id := Present (Some 99) \<rparr>"

text \<open>
  A login of the known user from the country "Unknown" whose dictionary has no
  \<open>timestamp\<close> key, and the same login with a timestamp.
\<close>

definition undated_login :: event where
  "undated_login = empty_event \<lparr> user_id := Present (Some 1), event_type := Present (Some ''login''),
      source_ip := Present (Some ''192.168.1.20''), location := Present (Some ''New York''),
      country := Present (Some ''Unknown'') \<rparr>"

definition unknown_country_login :: event where
  "unknown_country_login = undated_login \<lparr> timestamp := Present (Some ''2024-01-15T10:30:00'') \<rparr>"

text \<open>
  A file system with one log file of a given text, and a connector that monitors it with a
  given stored position.
\<close>

definition auth_log :: string where
  "auth_log = ''/var/log/auth.log''"

definition sample_fs :: "string \<Rightarrow> filesystem" where
  "sample_fs text = (\<lambda>p. if p = auth_log then Some \<lparr> content = text, readable = True \<rparr> else None)"

definition sample_connector :: "nat \<Rightarrow> connector" where
  "sample_connector n = \<lparr> log_files = [auth_log], last_positions = [auth_log \<mapsto> n] \<rparr>"

text \<open>The dictionary the auth connector builds for a sudo line: no address, no device.\<close>

definition sudo_data :: event where
  "sudo_data = empty_event \<lparr> timestamp := Present (Some ''2024-01-15T10:30:00''),
      user_name := Present (Some ''root''), event_type := Present (Some ''command''),
      action := Present (Some ''sudo''),
      details := Present (Some [(''command'', ''/bin/ls''), (''raw'', ''sudo line'')]) \<rparr>"

text \<open>
  Sample stand-ins for the regular-expression and \<open>strptime\<close> libraries, used in the
  examples only: they know one accepted-login line and its timestamp.
\<close>

definition sample_re :: regex_lib where
  "sample_re pat s =
     (if pat = SshLogin \<and>
         s = ''Jan 15 03:12:45 host sshd[811]: Accepted password for alice from 203.0.113.45 port 22''
      then Some [''Jan 15 03:12:45'', ''alice'', ''203.0.113.45'']
      else None)"

definition sample_strptime :: strptime_lib where
  "sample_strptime s fmt =
     (if s = ''2024 Jan 15 03:12:45'' \<and> fmt = ''%Y %b %d %H:%M:%S''
      then Some ''2024-01-15T03:12:45'' else None)"

text \<open>The content of a log file before and after its rotation.\<close>

definition two_lines :: string where
  "two_lines = ''first line'' @ [CHR 0x0A] @ ''second line'' @ [CHR 0x0A]"

definition rotated :: string where
  "rotated = ''new'' @ [CHR 0x0A]"

text \<open>
  The columns of the generated training file, a frame with these columns and no row, and a
  frame whose only row is a logout of user 1.
\<close>

definition event_columns :: "string list" where
  "event_columns = [''timestamp'', ''user_id'', ''user_name'', ''event_type'', ''source_ip'',
     ''location'', ''country'', ''device'', ''success'', ''file_name'', ''file_size_mb'', ''action'']"

definition empty_frame :: dataframe where
  "empty_frame = \<lparr> columns = event_columns, rows = [] \<rparr>"

definition logout_row :: event where
  "logout_row = empty_event \<lparr> timestamp := Present (Some ''2024-01-15T17:30:00''),
      user_id := Present (Some 1), user_name := Present (Some ''Sarah Johnson''),
      event_type := Present (Some ''logout''), source_ip := Present (Some ''192.168.1.20''),
      location := Present (Some ''New York''), country := Present (Some ''United States'') \<rparr>"

definition logout_frame :: dataframe where
  "logout_frame = \<lparr> columns = event_columns, rows = [logout_row] \<rparr>"

text \<open>
  A sample stand-in for \<open>pandas.to_datetime\<close> over time, used in the examples only: the
  text "now" is the reading of the clock, and any other text is read as a date and a time
  separated by a blank or a T.
\<close>

definition clock_hour :: clock_parser where
  "clock_hour clock s =
     (if s = ''now'' then iso_hour clock
      else iso_hour (map (\<lambda>c. if c = CHR '' '' then CHR ''T'' else c) s))"

text \<open>
  A login of the known user from home whose timestamp is the text "now", and the night login
  with its date and time separated by a blank.
\<close>

definition now_login :: event where
  "now_login = empty_event \<lparr> timestamp := Present (Some ''now''),
      user_id := Present (Some 1), event_type := Present (Some ''login''),
      source_ip := Present (Some ''192.168.1.20''), location := Present (Some ''New York''),
      country := Present (Some ''United States'') \<rparr>"

definition dated_login :: event where
  "dated_login = night_login \<lparr> timestamp := Present (Some ''2024-01-15 03:12:45'') \<rparr>"

section \<open>Scoring\<close>

lemma analyze_event_Inr:
  assumes "detect_rule_based_anomalies fi td P e = Inr vs"
  shows "analyze_event fi td P now e =
     Inr \<lparr> event = e, anomalies = vs,
           overall_risk_score = min 1 (real (length vs) * 0.4),
           alert_level = (if min 1 (real (length vs) * 0.4) \<ge> 0.6 then ''HIGH''
                          else if min 1 (real (length vs) * 0.4) \<ge> 0.4 then ''MEDIUM''
                          else if min 1 (real (length vs) * 0.4) \<ge> 0.2 then ''LOW''
                          else ''NORMAL''),
           is_suspicious = (min 1 (real (length vs) * 0.4) \<ge> 0.4),
           timestamp_analyzed = now \<rparr>"
  by (simp only: analyze_event_def Let_def assms sum.case)

lemma score_mono:
  fixes m n :: nat
  assumes "m \<le> n"
  shows "min 1 (real m * 0.4) \<le> min 1 (real n * 0.4)"
proof -
  have "real m * 0.4 \<le> real n * 0.4" using assms by simp
  then show ?thesis by (rule min.mono[OF order_refl])
qed

lemma score_bounds:
  fixes n :: nat
  shows "0 \<le> min 1 (real n * 0.4)" and "min 1 (real n * 0.4) \<le> 1"
  by simp_all

text \<open>
  Claim C1.  Whenever rule detection returns a list of violations for an event,
  \<open>analyze_event\<close> returns a result whose score is \<open>min 1 (n * 0.4)\<close> for the number
  \<open>n\<close> of violations; the alert level is HIGH exactly from 0.6, MEDIUM exactly in
  [0.4, 0.6), LOW exactly in [0.2, 0.4) and NORMAL exactly below 0.2; the event is suspicious
  exactly from 0.4; the score lies in [0, 1]; and an event with at least as many violations
  as another has at least its score.
\<close>

theorem analyze_event_score:
  assumes "detect_rule_based_anomalies fi td P e = Inr vs"
    and "detect_rule_based_anomalies fi' td' P' e' = Inr vs'"
  shows "\<exists>r r'. analyze_event fi td P now e = Inr r \<and> analyze_event fi' td' P' now' e' = Inr r' \<and>
     anomalies r = vs \<and>
     overall_risk_score r = min 1 (real (length vs) * 0.4) \<and>
     (alert_level r = ''HIGH'' \<longleftrightarrow> overall_risk_score r \<ge> 0.6) \<and>
     (alert_level r = ''MEDIUM'' \<longleftrightarrow> overall_risk_score r \<ge> 0.4 \<and> overall_risk_score r < 0.6) \<and>
     (alert_level r = ''LOW'' \<longleftrightarrow> overall_risk_score r \<ge> 0.2 \<and> overall_risk_score r < 0.4) \<and>
     (alert_level r = ''NORMAL'' \<longleftrightarrow> overall_risk_score r < 0.2) \<and>
     (is_suspicious r \<longleftrightarrow> overall_risk_score r \<ge> 0.4) \<and>
     0 \<le> overall_risk_score r \<and> overall_risk_score r \<le> 1 \<and>
     (length vs \<le> length vs' \<longrightarrow> overall_risk_score r \<le> overall_risk_score r')"
proof -
  define s where "s = min 1 (real (length vs) * 0.4)"
  define s' where "s' = min 1 (real (length vs') * 0.4)"
  define lev where "lev = (\<lambda>x::real. if x \<ge> 0.6 then ''HIGH'' else if x \<ge> 0.4 then ''MEDIUM''
                          else if x \<ge> 0.2 then ''LOW'' else ''NORMAL'')"
  define r where "r = \<lparr> event = e, anomalies = vs, overall_risk_score = s,
           alert_level = lev s, is_suspicious = (s \<ge> 0.4), timestamp_analyzed = now \<rparr>"
  define r' where "r' = \<lparr> event = e', anomalies = vs', overall_risk_score = s',
           alert_level = lev s', is_suspicious = (s' \<ge> 0.4), timestamp_analyzed = now' \<rparr>"
  have a: "analyze_event fi td P now e = Inr r"
    unfolding r_def s_def lev_def by (rule analyze_event_Inr[OF assms(1)])
  have a': "analyze_event fi' td' P' now' e' = Inr r'"
    unfolding r'_def s'_def lev_def by (rule analyze_event_Inr[OF assms(2)])
  have f: "anomalies r = vs" "overall_risk_score r = s" "alert_level r = lev s"
     "is_suspicious r = (s \<ge> 0.4)" "overall_risk_score r' = s'"
    by (simp_all add: r_def r'_def)
  have l1: "lev s = ''HIGH'' \<longleftrightarrow> s \<ge> 0.6" by (simp add: lev_def)
  have l2: "lev s = ''MEDIUM'' \<longleftrightarrow> s \<ge> 0.4 \<and> s < 0.6" by (auto simp add: lev_def)
  have l3: "lev s = ''LOW'' \<longleftrightarrow> s \<ge> 0.2 \<and> s < 0.4" by (auto simp add: lev_def)
  have l4: "lev s = ''NORMAL'' \<longleftrightarrow> s < 0.2" by (auto simp add: lev_def)
  have b: "0 \<le> s" "s \<le> 1" unfolding s_def by (rule score_bounds)+
  have m: "length vs \<le> length vs' \<longrightarrow> s \<le> s'"
    unfolding s_def s'_def using score_mono by blast
  show ?thesis
    using a a' f l1 l2 l3 l4 b m s_def by (intro exI[of _ r] exI[of _ r']) simp
qed

theorem analyze_event_score_witness:
  "\<exists>r r'. analyze_event iso_hour iso_hour office_profiles ''t1'' empty_event = Inr r \<and>
      analyze_event iso_hour iso_hour office_profiles ''t2'' night_login = Inr r' \<and>
      anomalies r = [UnknownUser] \<and> overall_risk_score r = 0.4 \<and> alert_level r = ''MEDIUM'' \<and>
      is_suspicious r \<and> overall_risk_score r \<le> overall_risk_score r'"
proof -
  have h1: "detect_rule_based_anomalies iso_hour iso_hour office_profiles empty_event = Inr [UnknownUser]"
    by (simp add: detect_rule_based_anomalies_def empty_event_def)
  have h2: "detect_rule_based_anomalies iso_hour iso_hour office_profiles night_login =
      Inr [VeryUnusualLoginTime 3, SuspiciousCountry ''Russia'', ExternalIP ''203.0.113.45'']"
    by code_simp
  show ?thesis
    using analyze_event_score[OF h1 h2, of "''t1''" "''t2''"] by auto
qed

lemma detect_known_login:
  assumes "lookup_profile P (get (user_id e)) = Some p"
    and "get (event_type e) = Some ''login''"
  shows "detect_rule_based_anomalies fi td P e = Inr (login_checks fi td p e)"
  using assms by (simp add: detect_rule_based_anomalies_def)

lemma detect_unknown:
  assumes "lookup_profile P (get (user_id e)) = None"
  shows "detect_rule_based_anomalies fi td P e = Inr [UnknownUser]"
  using assms by (simp add: detect_rule_based_anomalies_def)

section \<open>Determinism of the analysis\<close>

lemma parse_timestamp_agree:
  assumes "CHR ''T'' \<notin> set (py_str v) \<longrightarrow> td1 (py_str v) = td2 (py_str v)"
  shows "parse_timestamp fi td1 v = parse_timestamp fi td2 v"
  using assms by (simp add: parse_timestamp_def Let_def)

lemma login_checks_agree:
  assumes "\<forall>v. timestamp e = Present v \<longrightarrow> CHR ''T'' \<notin> set (py_str v) \<longrightarrow>
             td1 (py_str v) = td2 (py_str v)"
  shows "login_checks fi td1 p e = login_checks fi td2 p e"
proof (cases "timestamp e")
  case Absent
  then show ?thesis by (simp add: login_checks_def)
next
  case (Present v)
  with assms have "parse_timestamp fi td1 v = parse_timestamp fi td2 v"
    by (intro parse_timestamp_agree) simp
  then show ?thesis by (simp add: login_checks_def Present)
qed

lemma detect_agree:
  assumes "\<forall>p. lookup_profile P (get (user_id e)) = Some p \<longrightarrow>
             get (event_type e) = Some ''login'' \<longrightarrow>
             login_checks fi td1 p e = login_checks fi td2 p e"
  shows "detect_rule_based_anomalies fi td1 P e = detect_rule_based_anomalies fi td2 P e"
proof (cases "lookup_profile P (get (user_id e))")
  case None
  then show ?thesis by (simp add: detect_rule_based_anomalies_def)
next
  case (Some p)
  show ?thesis
  proof (cases "get (event_type e) = Some ''login''")
    case True
    with assms Some have "login_checks fi td1 p e = login_checks fi td2 p e" by blast
    then show ?thesis by (simp add: detect_rule_based_anomalies_def Some)
  next
    case False
    then show ?thesis by (simp add: detect_rule_based_anomalies_def Some)
  qed
qed

text \<open>
  Claim C3, as stated: two calls of \<open>analyze_event\<close> on the same event and the same profile
  table return records equal in every field.  Two things read the clock.  The record has the
  field \<open>timestamp_analyzed\<close>, so the same event analysed at two different times gives two
  different records.  And a timestamp text without a T goes to \<open>pandas.to_datetime\<close>, which
  reads "now" from the clock: the same login with that timestamp has a very-unusual-time
  anomaly and is suspicious at five in the morning, and has no anomaly at ten.
\<close>

theorem analyze_event_clock_counterexample:
  "analyze_event iso_hour iso_hour office_profiles ''2024-01-15T10:00:00'' night_login \<noteq>
   analyze_event iso_hour iso_hour office_profiles ''2024-01-15T10:00:01'' night_login \<and>
   map_sum id anomalies
     (analyze_event iso_hour (clock_hour ''2024-01-15T05:00:00'') office_profiles
        ''2024-01-15T05:00:00'' now_login) = Inr [VeryUnusualLoginTime 5] \<and>
   map_sum id anomalies
     (analyze_event iso_hour (clock_hour ''2024-01-15T10:00:00'') office_profiles
        ''2024-01-15T10:00:00'' now_login) = Inr [] \<and>
   map_sum id is_suspicious
     (analyze_event iso_hour (clock_hour ''2024-01-15T05:00:00'') office_profiles
        ''2024-01-15T05:00:00'' now_login) = Inr True \<and>
   map_sum id is_suspicious
     (analyze_event iso_hour (clock_hour ''2024-01-15T10:00:00'') office_profiles
        ''2024-01-15T10:00:00'' now_login) = Inr False"
proof -
  have h: "detect_rule_based_anomalies iso_hour iso_hour office_profiles night_login =
      Inr [VeryUnusualLoginTime 3, SuspiciousCountry ''Russia'', ExternalIP ''203.0.113.45'']"
    by code_simp
  have 1: "analyze_event iso_hour iso_hour office_profiles ''2024-01-15T10:00:00'' night_login \<noteq>
   analyze_event iso_hour iso_hour office_profiles ''2024-01-15T10:00:01'' night_login"
    by (simp add: analyze_event_Inr[OF h])
  have d5: "detect_rule_based_anomalies iso_hour (clock_hour ''2024-01-15T05:00:00'') office_profiles
      now_login = Inr [VeryUnusualLoginTime 5]"
    by code_simp
  have d10: "detect_rule_based_anomalies iso_hour (clock_hour ''2024-01-15T10:00:00'') office_profiles
      now_login = Inr []"
    by code_simp
  have 2: "map_sum id anomalies
     (analyze_event iso_hour (clock_hour ''2024-01-15T05:00:00'') office_profiles
        ''2024-01-15T05:00:00'' now_login) = Inr [VeryUnusualLoginTime 5]"
    "map_sum id is_suspicious
     (analyze_event iso_hour (clock_hour ''2024-01-15T05:00:00'') office_profiles
        ''2024-01-15T05:00:00'' now_login) = Inr True"
    by (simp_all add: analyze_event_Inr[OF d5])
  have 3: "map_sum id anomalies
     (analyze_event iso_hour (clock_hour ''2024-01-15T10:00:00'') office_profiles
        ''2024-01-15T10:00:00'' now_login) = Inr []"
    "map_sum id is_suspicious
     (analyze_event iso_hour (clock_hour ''2024-01-15T10:00:00'') office_profiles
        ''2024-01-15T10:00:00'' now_login) = Inr False"
    by (simp_all add: analyze_event_Inr[OF d10])
  from 1 2 3 show ?thesis by simp
qed

text \<open>
  Claim C3, amended.  Let the event be no login of a user with a profile, or let its
  timestamp key be missing, or its timestamp text contain a T, or \<open>pandas.to_datetime\<close> read
  its timestamp text the same way at the times of the two calls.  Then the two calls give the
  same \<open>event\<close>, \<open>anomalies\<close>, \<open>overall_risk_score\<close>, \<open>alert_level\<close> and
  \<open>is_suspicious\<close> (or raise the same exception); the field \<open>timestamp_analyzed\<close> is the
  reading of the clock at each call.
\<close>

theorem analyze_event_deterministic_fields:
  assumes "\<forall>p v. lookup_profile P (get (user_id e)) = Some p \<longrightarrow>
             get (event_type e) = Some ''login'' \<longrightarrow>
             timestamp e = Present v \<longrightarrow> CHR ''T'' \<notin> set (py_str v) \<longrightarrow>
             to_datetime clock1 (py_str v) = to_datetime clock2 (py_str v)"
  shows
  "map_sum id (\<lambda>r. (event r, anomalies r, overall_risk_score r, alert_level r, is_suspicious r))
       (analyze_event fi (to_datetime clock1) P now1 e) =
   map_sum id (\<lambda>r. (event r, anomalies r, overall_risk_score r, alert_level r, is_suspicious r))
       (analyze_event fi (to_datetime clock2) P now2 e) \<and>
   map_sum id timestamp_analyzed (analyze_event fi (to_datetime clock1) P now1 e) =
   map_sum id (\<lambda>r. now1) (analyze_event fi (to_datetime clock1) P now1 e)"
proof -
  have "\<forall>p. lookup_profile P (get (user_id e)) = Some p \<longrightarrow>
             get (event_type e) = Some ''login'' \<longrightarrow>
             login_checks fi (to_datetime clock1) p e = login_checks fi (to_datetime clock2) p e"
  proof (intro allI impI)
    fix p
    assume "lookup_profile P (get (user_id e)) = Some p" "get (event_type e) = Some ''login''"
    with assms have "\<forall>v. timestamp e = Present v \<longrightarrow> CHR ''T'' \<notin> set (py_str v) \<longrightarrow>
             to_datetime clock1 (py_str v) = to_datetime clock2 (py_str v)"
      by blast
    then show "login_checks fi (to_datetime clock1) p e = login_checks fi (to_datetime clock2) p e"
      by (rule login_checks_agree)
  qed
  then have d: "detect_rule_based_anomalies fi (to_datetime clock1) P e =
      detect_rule_based_anomalies fi (to_datetime clock2) P e"
    by (rule detect_agree)
  show ?thesis
    by (cases "detect_rule_based_anomalies fi (to_datetime clock2) P e")
       (simp_all add: analyze_event_def Let_def d)
qed

theorem analyze_event_deterministic_fields_witness:
  "map_sum id (\<lambda>r. (event r, anomalies r, overall_risk_score r, alert_level r, is_suspicious r))
       (analyze_event iso_hour (clock_hour ''2024-01-15T05:00:00'') office_profiles
          ''2024-01-15T05:00:00'' dated_login) =
   map_sum id (\<lambda>r. (event r, anomalies r, overall_risk_score r, alert_level r, is_suspicious r))
       (analyze_event iso_hour (clock_hour ''2024-01-15T10:00:00'') office_profiles
          ''2024-01-15T10:00:00'' dated_login) \<and>
   map_sum id anomalies
       (analyze_event iso_hour (clock_hour ''2024-01-15T05:00:00'') office_profiles
          ''2024-01-15T05:00:00'' dated_login) =
     Inr [VeryUnusualLoginTime 3, SuspiciousCountry ''Russia'', ExternalIP ''203.0.113.45'']"
proof -
  have ts: "timestamp dated_login = Present (Some ''2024-01-15 03:12:45'')"
    by (simp add: dated_login_def night_login_def empty_event_def)
  have same: "clock_hour ''2024-01-15T05:00:00'' ''2024-01-15 03:12:45'' =
      clock_hour ''2024-01-15T10:00:00'' ''2024-01-15 03:12:45''"
    by (simp add: clock_hour_def)
  have hyp: "\<forall>p v. lookup_profile office_profiles (get (user_id dated_login)) = Some p \<longrightarrow>
             get (event_type dated_login) = Some ''login'' \<longrightarrow>
             timestamp dated_login = Present v \<longrightarrow> CHR ''T'' \<notin> set (py_str v) \<longrightarrow>
             clock_hour ''2024-01-15T05:00:00'' (py_str v) = clock_hour ''2024-01-15T10:00:00'' (py_str v)"
    using same by (auto simp add: ts)
  have d: "detect_rule_based_anomalies iso_hour (clock_hour ''2024-01-15T05:00:00'') office_profiles
      dated_login =
      Inr [VeryUnusualLoginTime 3, SuspiciousCountry ''Russia'', ExternalIP ''203.0.113.45'']"
    by code_simp
  have a: "map_sum id anomalies
       (analyze_event iso_hour (clock_hour ''2024-01-15T05:00:00'') office_profiles
          ''2024-01-15T05:00:00'' dated_login) =
     Inr [VeryUnusualLoginTime 3, SuspiciousCountry ''Russia'', ExternalIP ''203.0.113.45'']"
    by (simp add: analyze_event_Inr[OF d])
  show ?thesis
    using analyze_event_deterministic_fields[where to_datetime = clock_hour and fi = iso_hour
        and P = office_profiles and e = dated_login and ?clock1.0 = "''2024-01-15T05:00:00''"
        and ?clock2.0 = "''2024-01-15T10:00:00''" and ?now1.0 = "''2024-01-15T05:00:00''"
        and ?now2.0 = "''2024-01-15T10:00:00''", OF hyp] a
    by simp
qed

section \<open>Unknown users\<close>

text \<open>
  Claim C7.  An event whose user id has no entry in the profile table (a missing user id
  included) gets exactly one anomaly, the unknown-user message, whatever its other fields;
  the analysis returns normally with score 0.4, level MEDIUM and the suspicious flag set.
\<close>

theorem unknown_user_single_anomaly:
  assumes "lookup_profile P (get (user_id e)) = None"
  shows "detect_rule_based_anomalies fi td P e = Inr [UnknownUser] \<and>
     analyze_event fi td P now e =
       Inr \<lparr> event = e, anomalies = [UnknownUser], overall_risk_score = 0.4,
             alert_level = ''MEDIUM'', is_suspicious = True, timestamp_analyzed = now \<rparr>"
proof -
  have d: "detect_rule_based_anomalies fi td P e = Inr [UnknownUser]"
    by (rule detect_unknown[OF assms])
  show ?thesis
    by (simp add: d analyze_event_Inr[OF d])
qed

theorem unknown_user_single_anomaly_witness:
  "lookup_profile office_profiles (get (user_id stranger_login)) = None \<and>
   detect_rule_based_anomalies iso_hour iso_hour office_profiles stranger_login = Inr [UnknownUser] \<and>
   analyze_event iso_hour iso_hour office_profiles ''2024-01-15T10:00:00'' stranger_login =
       Inr \<lparr> event = stranger_login, anomalies = [UnknownUser], overall_risk_score = 0.4,
             alert_level = ''MEDIUM'', is_suspicious = True,
             timestamp_analyzed = ''2024-01-15T10:00:00'' \<rparr>"
proof -
  have h: "lookup_profile office_profiles (get (user_id stranger_login)) = None"
    by (simp add: stranger_login_def night_login_def empty_event_def office_profiles_def)
  show ?thesis
    using h unknown_user_single_anomaly[OF h, of iso_hour iso_hour "''2024-01-15T10:00:00''"]
    by simp
qed

section \<open>The night login scenario\<close>

text \<open>
  Claim C9.  A login whose timestamp is parsed to hour 3, from country "Russia" and address
  203.0.113.45, of a user whose profile has the hours 9 to 17, has never seen Russia and
  knows the location of the event (or the location is on the trusted list): the anomalies
  are exactly the very-unusual-time, suspicious-country and external-address ones, the score
  is 1, the level HIGH and the event suspicious.
\<close>

theorem night_login_from_russia:
  assumes known: "lookup_profile P (get (user_id e)) = Some p"
    and hours: "hmin (normal_login_hours p) = 9" "hmax (normal_login_hours p) = 17"
    and history: "Some ''Russia'' \<notin> set (normal_countries p)"
    and login: "get (event_type e) = Some ''login''"
    and stamp: "timestamp e = Present (Some ts)"
    and hour: "parse_timestamp fi td (Some ts) = Hour 3"
    and russia: "country e = Present (Some ''Russia'')"
    and ip: "source_ip e = Present (Some ''203.0.113.45'')"
    and loc: "location e = Present (Some l)" "Some l \<in> set (normal_locations p) \<or> l \<in> set trusted_locations"
  shows "detect_rule_based_anomalies fi td P e =
       Inr [VeryUnusualLoginTime 3, SuspiciousCountry ''Russia'', ExternalIP ''203.0.113.45''] \<and>
     analyze_event fi td P now e =
       Inr \<lparr> event = e,
             anomalies = [VeryUnusualLoginTime 3, SuspiciousCountry ''Russia'',
                          ExternalIP ''203.0.113.45''],
             overall_risk_score = 1, alert_level = ''HIGH'', is_suspicious = True,
             timestamp_analyzed = now \<rparr>"
proof -
  have t: "time_check p (Hour 3) = [VeryUnusualLoginTime 3]" by simp
  have c: "country_check e = [SuspiciousCountry ''Russia'']"
    by (simp add: country_check_def russia suspicious_countries_def)
  have l: "location_check p e = []"
    using loc by (auto simp add: location_check_def)
  have i: "ip_check e = [ExternalIP ''203.0.113.45'']"
    by (simp add: ip_check_def ip startswith_def)
  have lc: "login_checks fi td p e =
      [VeryUnusualLoginTime 3, SuspiciousCountry ''Russia'', ExternalIP ''203.0.113.45'']"
    by (simp add: login_checks_def stamp hour t c l i)
  have d: "detect_rule_based_anomalies fi td P e =
      Inr [VeryUnusualLoginTime 3, SuspiciousCountry ''Russia'', ExternalIP ''203.0.113.45'']"
    by (simp add: detect_known_login[OF known login] lc)
  show ?thesis
    by (simp add: d analyze_event_Inr[OF d])
qed

theorem night_login_from_russia_witness:
  "detect_rule_based_anomalies iso_hour iso_hour office_profiles night_login =
       Inr [VeryUnusualLoginTime 3, SuspiciousCountry ''Russia'', ExternalIP ''203.0.113.45''] \<and>
   analyze_event iso_hour iso_hour office_profiles ''2024-01-15T10:00:00'' night_login =
       Inr \<lparr> event = night_login,
             anomalies = [VeryUnusualLoginTime 3, SuspiciousCountry ''Russia'',
                          ExternalIP ''203.0.113.45''],
             overall_risk_score = 1, alert_level = ''HIGH'', is_suspicious = True,
             timestamp_analyzed = ''2024-01-15T10:00:00'' \<rparr>"
proof -
  have known: "lookup_profile office_profiles (get (user_id night_login)) = Some office_profile"
    by (simp add: night_login_def empty_event_def office_profiles_def)
  have hours: "hmin (normal_login_hours office_profile) = 9" "hmax (normal_login_hours office_profile) = 17"
    by (simp_all add: office_profile_def)
  have history: "Some ''Russia'' \<notin> set (normal_countries office_profile)"
    by (simp add: office_profile_def)
  have login: "get (event_type night_login) = Some ''login''"
    by (simp add: night_login_def empty_event_def)
  have stamp: "timestamp night_login = Present (Some ''2024-01-15T03:12:45'')"
    by (simp add: night_login_def empty_event_def)
  have hour: "parse_timestamp iso_hour iso_hour (Some ''2024-01-15T03:12:45'') = Hour 3"
    by code_simp
  have russia: "country night_login = Present (Some ''Russia'')"
    by (simp add: night_login_def empty_event_def)
  have ip: "source_ip night_login = Present (Some ''203.0.113.45'')"
    by (simp add: night_login_def empty_event_def)
  have loc: "location night_login = Present (Some ''New York'')"
    "Some ''New York'' \<in> set (normal_locations office_profile) \<or> ''New York'' \<in> set trusted_locations"
    by (simp_all add: night_login_def empty_event_def office_profile_def)
  show ?thesis
    by (rule night_login_from_russia[where fi = iso_hour and td = iso_hour
          and P = office_profiles and e = night_login and p = office_profile
          and ts = "''2024-01-15T03:12:45''" and l = "''New York''",
          OF known hours history login stamp hour russia ip loc])
qed

section \<open>The missing-country sentinel\<close>

text \<open>
  Claim C10, as stated: every login with country "Unknown" of a user with a profile gets the
  suspicious-country anomaly.  The country rule is inside the \<open>try\<close> block and after the
  reading of the timestamp: a login whose dictionary has no \<open>timestamp\<close> key leaves the
  block at the first line, and its only anomaly is the message of the handler.
\<close>

theorem unknown_country_counterexample:
  "lookup_profile office_profiles (get (user_id undated_login)) = Some office_profile \<and>
   get (event_type undated_login) = Some ''login'' \<and>
   country undated_login = Present (Some ''Unknown'') \<and>
   detect_rule_based_anomalies iso_hour iso_hour office_profiles undated_login =
     Inr [ErrorParsingTimestamp KeyError]"
  by (simp add: detect_rule_based_anomalies_def login_checks_def undated_login_def empty_event_def
      office_profiles_def)

text \<open>
  Claim C10, amended: for a login of a user with a profile whose \<open>timestamp\<close> key exists and
  whose timestamp is read without an exception, the country "Unknown" gives the
  suspicious-country anomaly.
\<close>

theorem unknown_country_fires:
  assumes known: "lookup_profile P (get (user_id e)) = Some p"
    and login: "get (event_type e) = Some ''login''"
    and stamp: "timestamp e = Present v"
    and parses: "\<forall>x. parse_timestamp fi td v \<noteq> Raises x"
    and unknown: "country e = Present (Some ''Unknown'')"
  shows "\<exists>vs. detect_rule_based_anomalies fi td P e = Inr vs \<and>
     SuspiciousCountry ''Unknown'' \<in> set vs"
proof -
  have c: "country_check e = [SuspiciousCountry ''Unknown'']"
    by (simp add: country_check_def unknown suspicious_countries_def)
  have "SuspiciousCountry ''Unknown'' \<in> set (login_checks fi td p e)"
  proof (cases "parse_timestamp fi td v")
    case (Raises x)
    with parses show ?thesis by simp
  next
    case NaT
    then show ?thesis by (simp add: login_checks_def stamp c)
  next
    case (Hour h)
    then show ?thesis by (simp add: login_checks_def stamp c)
  qed
  then show ?thesis
    by (simp add: detect_known_login[OF known login])
qed

theorem unknown_country_fires_witness:
  "\<exists>vs. detect_rule_based_anomalies iso_hour iso_hour office_profiles unknown_country_login = Inr vs \<and>
     SuspiciousCountry ''Unknown'' \<in> set vs"
proof -
  have known: "lookup_profile office_profiles (get (user_id unknown_country_login)) = Some office_profile"
    by (simp add: unknown_country_login_def undated_login_def empty_event_def office_profiles_def)
  have login: "get (event_type unknown_country_login) = Some ''login''"
    by (simp add: unknown_country_login_def undated_login_def empty_event_def)
  have stamp: "timestamp unknown_country_login = Present (Some ''2024-01-15T10:30:00'')"
    by (simp add: unknown_country_login_def undated_login_def empty_event_def)
  have p: "parse_timestamp iso_hour iso_hour (Some ''2024-01-15T10:30:00'') = Hour 10"
    by code_simp
  have parses: "\<forall>x. parse_timestamp iso_hour iso_hour (Some ''2024-01-15T10:30:00'') \<noteq> Raises x"
    unfolding p by simp
  have unknown: "country unknown_country_login = Present (Some ''Unknown'')"
    by (simp add: unknown_country_login_def undated_login_def empty_event_def)
  show ?thesis
    by (rule unknown_country_fires[where fi = iso_hour and td = iso_hour
          and P = office_profiles and e = unknown_country_login and p = office_profile
          and v = "Some ''2024-01-15T10:30:00''", OF known login stamp parses unknown])
qed

section \<open>Normalized events\<close>

text \<open>
  Claim C4, as stated: a field the source did not supply carries its sentinel, and for
  \<open>user_name\<close>, \<open>source_ip\<close> and \<open>device\<close> the sentinel is "unknown" or "Unknown".
  \<open>standardize_event\<close> reads these three with \<open>get\<close> and no default: the sudo event of the
  auth connector, which has no address and no device, is normalized with \<open>None\<close> for both.
\<close>

theorem standardize_event_no_sentinel_counterexample:
  "source_ip sudo_data = Absent \<and> device sudo_data = Absent \<and> user_name empty_event = Absent \<and>
   source_ip (standardize_event ''LinuxAuthConnector'' ''2024-01-15T10:30:01'' sudo_data) = Present None \<and>
   device (standardize_event ''LinuxAuthConnector'' ''2024-01-15T10:30:01'' sudo_data) = Present None \<and>
   user_name (standardize_event ''LinuxAuthConnector'' ''2024-01-15T10:30:01'' empty_event) = Present None"
  by (simp add: standardize_event_def sudo_data_def empty_event_def)

text \<open>
  Claim C4, amended: the normalized event has every one of its fourteen keys, whatever the
  input; a missing \<open>location\<close> or \<open>country\<close> becomes "Unknown", a missing \<open>success\<close>
  becomes true, a missing \<open>timestamp\<close> becomes the clock reading; a missing \<open>user_name\<close>,
  \<open>source_ip\<close> or \<open>device\<close> becomes \<open>None\<close>.
\<close>

theorem standardize_event_fields:
  "let r = standardize_event cls now d
   in timestamp r \<noteq> Absent \<and> user_id r \<noteq> Absent \<and> user_name r \<noteq> Absent \<and>
     event_type r \<noteq> Absent \<and> source_ip r \<noteq> Absent \<and> location r \<noteq> Absent \<and>
     country r \<noteq> Absent \<and> device r \<noteq> Absent \<and> success r \<noteq> Absent \<and>
     file_name r \<noteq> Absent \<and> file_size_mb r \<noteq> Absent \<and> action r \<noteq> Absent \<and>
     details r \<noteq> Absent \<and> source r \<noteq> Absent \<and>
     (location d = Absent \<longrightarrow> location r = Present (Some ''Unknown'')) \<and>
     (country d = Absent \<longrightarrow> country r = Present (Some ''Unknown'')) \<and>
     (success d = Absent \<longrightarrow> success r = Present (Some True)) \<and>
     (timestamp d = Absent \<longrightarrow> timestamp r = Present (Some now)) \<and>
     (user_name d = Absent \<longrightarrow> user_name r = Present None) \<and>
     (source_ip d = Absent \<longrightarrow> source_ip r = Present None) \<and>
     (device d = Absent \<longrightarrow> device r = Present None)"
  by (simp add: Let_def standardize_event_def)

theorem standardize_event_fields_witness:
  "location (standardize_event ''LinuxAuthConnector'' ''2024-01-15T10:30:01'' empty_event)
      = Present (Some ''Unknown'') \<and>
   country (standardize_event ''LinuxAuthConnector'' ''2024-01-15T10:30:01'' empty_event)
      = Present (Some ''Unknown'') \<and>
   success (standardize_event ''LinuxAuthConnector'' ''2024-01-15T10:30:01'' empty_event)
      = Present (Some True) \<and>
   timestamp (standardize_event ''LinuxAuthConnector'' ''2024-01-15T10:30:01'' empty_event)
      = Present (Some ''2024-01-15T10:30:01'') \<and>
   user_name (standardize_event ''LinuxAuthConnector'' ''2024-01-15T10:30:01'' empty_event)
      = Present None \<and>
   source_ip (standardize_event ''LinuxAuthConnector'' ''2024-01-15T10:30:01'' empty_event)
      = Present None \<and>
   device (standardize_event ''LinuxAuthConnector'' ''2024-01-15T10:30:01'' empty_event)
      = Present None"
proof -
  have a: "location empty_event = Absent" "country empty_event = Absent"
    "success empty_event = Absent" "timestamp empty_event = Absent"
    "user_name empty_event = Absent" "source_ip empty_event = Absent"
    "device empty_event = Absent"
    by (simp_all add: empty_event_def)
  show ?thesis
    using standardize_event_fields[of "''LinuxAuthConnector''" "''2024-01-15T10:30:01''" empty_event] a
    by (simp add: Let_def)
qed

section \<open>Records that match no pattern\<close>

text \<open>
  Claim C5.  A record in which none of the three patterns of the auth connector is found
  makes its \<open>parse_event\<close> return \<open>None\<close>, and a record the access-log pattern does not
  match makes the \<open>parse_event\<close> of the web connector return \<open>None\<close>; in both the body of
  the \<open>try\<close> ends without an exception, so nothing is raised and nothing is printed.
\<close>

theorem parse_event_no_match:
  "(re_groups SshLogin raw = None \<and> re_groups SshFailed raw = None \<and>
    re_groups SudoCommand raw = None \<longrightarrow>
      auth_parse_body re_groups strptime year now raw = Inr None \<and>
      auth_parse_event re_groups strptime year now raw = None) \<and>
   (re_groups AccessLog raw = None \<longrightarrow>
      web_parse_body re_groups strptime now raw = Inr None \<and>
      web_parse_event re_groups strptime now raw = None)"
  by (simp add: auth_parse_body_def auth_parse_event_def web_parse_body_def web_parse_event_def)

theorem parse_event_no_match_witness:
  "auth_parse_body sample_re sample_strptime ''2024'' ''2024-01-15T10:30:01'' ''-- MARK --'' = Inr None \<and>
   auth_parse_event sample_re sample_strptime ''2024'' ''2024-01-15T10:30:01'' ''-- MARK --'' = None \<and>
   web_parse_body sample_re sample_strptime ''2024-01-15T10:30:01'' ''-- MARK --'' = Inr None \<and>
   web_parse_event sample_re sample_strptime ''2024-01-15T10:30:01'' ''-- MARK --'' = None"
proof -
  have n: "sample_re SshLogin ''-- MARK --'' = None" "sample_re SshFailed ''-- MARK --'' = None"
    "sample_re SudoCommand ''-- MARK --'' = None" "sample_re AccessLog ''-- MARK --'' = None"
    by (simp_all add: sample_re_def)
  show ?thesis
    using parse_event_no_match[of sample_re "''-- MARK --''" sample_strptime "''2024''"
        "''2024-01-15T10:30:01''"] n
    by simp
qed

section \<open>Incremental reading\<close>

lemma fetch_file_positions:
  "snd (fetch_file fs pos f) =
     (if get_file_size fs f > last_position pos f \<and> can_read fs f
      then pos(f \<mapsto> get_file_size fs f) else pos)"
  by (auto simp add: fetch_file_def can_read_def Let_def split: option.splits)

lemma fetch_file_idle:
  assumes "\<not> (get_file_size fs f > last_position pos f \<and> can_read fs f)"
  shows "fetch_file fs pos f = ([], pos)"
  using assms by (auto simp add: fetch_file_def can_read_def Let_def split: option.splits)

lemma fetch_files_positions:
  "snd (fetch_files fs pos L) g =
     (if g \<in> set L \<and> get_file_size fs g > last_position pos g \<and> can_read fs g
      then Some (get_file_size fs g) else pos g)"
proof (induction L arbitrary: pos)
  case Nil
  then show ?case by simp
next
  case (Cons f rest)
  obtain l1 p1 where f1: "fetch_file fs pos f = (l1, p1)" by (cases "fetch_file fs pos f")
  obtain l2 p2 where f2: "fetch_files fs p1 rest = (l2, p2)" by (cases "fetch_files fs p1 rest")
  have res: "snd (fetch_files fs pos (f # rest)) g = p2 g"
    by (simp add: f1 f2)
  have p1: "p1 = (if get_file_size fs f > last_position pos f \<and> can_read fs f
      then pos(f \<mapsto> get_file_size fs f) else pos)"
    using fetch_file_positions[of fs pos f] f1 by simp
  have p2: "p2 g = (if g \<in> set rest \<and> get_file_size fs g > last_position p1 g \<and> can_read fs g
      then Some (get_file_size fs g) else p1 g)"
    using Cons.IH[of p1] f2 by simp
  show ?case
  proof (cases "g = f")
    case True
    show ?thesis
    proof (cases "get_file_size fs f > last_position pos f \<and> can_read fs f")
      case active: True
      then have "p1 g = Some (get_file_size fs g)" "last_position p1 g = get_file_size fs g"
        by (simp_all add: p1 last_position_def True)
      then have "p2 g = Some (get_file_size fs g)"
        by (simp add: p2)
      moreover have "g \<in> set (f # rest) \<and> get_file_size fs g > last_position pos g \<and>
          can_read fs g"
        using active by (simp add: True)
      ultimately show ?thesis
        by (simp only: res) simp
    next
      case False
      have "p1 = pos" unfolding p1 using False by (rule if_not_P)
      moreover have "\<not> (get_file_size fs g > last_position pos g \<and> can_read fs g)"
        using False by (simp add: True)
      ultimately have "p2 g = pos g"
        by (auto simp add: p2)
      then show ?thesis
        using \<open>\<not> (get_file_size fs g > last_position pos g \<and> can_read fs g)\<close>
        by (simp only: res) auto
    qed
  next
    case False
    then have "p1 g = pos g" "last_position p1 g = last_position pos g"
      by (simp_all add: p1 last_position_def)
    then have "p2 g = (if g \<in> set rest \<and> get_file_size fs g > last_position pos g \<and>
        can_read fs g then Some (get_file_size fs g) else pos g)"
      by (simp add: p2)
    then show ?thesis
      using False by (simp only: res) simp
  qed
qed

lemma fetch_files_idle:
  assumes "\<forall>g \<in> set L. \<not> (get_file_size fs g > last_position pos g \<and> can_read fs g)"
  shows "fetch_files fs pos L = ([], pos)"
  using assms
proof (induction L)
  case Nil
  then show ?case by simp
next
  case (Cons f rest)
  have "fetch_file fs pos f = ([], pos)"
    by (rule fetch_file_idle) (use Cons.prems in simp)
  moreover have "fetch_files fs pos rest = ([], pos)"
    by (rule Cons.IH) (use Cons.prems in simp)
  ultimately show ?case by simp
qed

lemma fetch_files_then_idle:
  assumes "g \<in> set L"
  shows "\<not> (get_file_size fs g > last_position (snd (fetch_files fs pos L)) g \<and>
            can_read fs g)"
  using assms by (auto simp add: last_position_def fetch_files_positions)

text \<open>
  Claim C6.  A call of \<open>fetch_events\<close> that follows another one on an unchanged file system
  yields no record and changes no offset; and the first call leaves, for every monitored
  file that is readable and larger than its stored offset, the size of the file as the
  stored offset.
\<close>

theorem fetch_events_no_duplicates:
  "fetch_events fs (snd (fetch_events fs c)) = ([], snd (fetch_events fs c)) \<and>
   (\<forall>path \<in> set (log_files c).
      get_file_size fs path > last_position (last_positions c) path \<and>
      can_read fs path \<longrightarrow>
      last_positions (snd (fetch_events fs c)) path = Some (get_file_size fs path))"
proof -
  obtain out pos' where f: "fetch_files fs (last_positions c) (log_files c) = (out, pos')"
    by (cases "fetch_files fs (last_positions c) (log_files c)")
  have c': "snd (fetch_events fs c) = c \<lparr> last_positions := pos' \<rparr>"
    by (simp add: fetch_events_def f)
  have pos': "pos' = snd (fetch_files fs (last_positions c) (log_files c))"
    by (simp add: f)
  have idle: "\<forall>g \<in> set (log_files c).
      \<not> (get_file_size fs g > last_position pos' g \<and> can_read fs g)"
    unfolding pos' using fetch_files_then_idle by blast
  have again: "fetch_files fs pos' (log_files c) = ([], pos')"
    by (rule fetch_files_idle[OF idle])
  have 1: "fetch_events fs (snd (fetch_events fs c)) = ([], snd (fetch_events fs c))"
    unfolding c' by (simp add: fetch_events_def again)
  have 2: "\<forall>path \<in> set (log_files c).
      get_file_size fs path > last_position (last_positions c) path \<and>
      can_read fs path \<longrightarrow>
      last_positions (snd (fetch_events fs c)) path = Some (get_file_size fs path)"
    by (simp add: c' pos' fetch_files_positions)
  from 1 2 show ?thesis by simp
qed

theorem fetch_events_no_duplicates_witness:
  "fst (fetch_events (sample_fs two_lines) (sample_connector 0)) = [''first line'', ''second line''] \<and>
   last_positions (snd (fetch_events (sample_fs two_lines) (sample_connector 0))) auth_log = Some 23 \<and>
   fst (fetch_events (sample_fs two_lines) (snd (fetch_events (sample_fs two_lines) (sample_connector 0)))) = []"
proof -
  have a: "fst (fetch_events (sample_fs two_lines) (sample_connector 0)) = [''first line'', ''second line'']"
    by code_simp
  have s: "get_file_size (sample_fs two_lines) auth_log = 23"
    by code_simp
  have h1: "auth_log \<in> set (log_files (sample_connector 0))"
    by (simp add: sample_connector_def)
  have h2: "get_file_size (sample_fs two_lines) auth_log
      > last_position (last_positions (sample_connector 0)) auth_log"
    by code_simp
  have h3: "can_read (sample_fs two_lines) auth_log"
    by (simp add: sample_fs_def can_read_def)
  show ?thesis
    using fetch_events_no_duplicates[of "sample_fs two_lines" "sample_connector 0"] a s h1 h2 h3
    by auto
qed

section \<open>Truncated files\<close>

text \<open>
  Claim C2, as stated: a call of \<open>fetch_events\<close> that finds a file smaller than its stored
  offset resets the offset to 0.  The only test of the loop is \<open>current_size > last_position\<close>:
  after a first call has read 23 bytes and the file has been replaced by one of 4 bytes, the
  next call yields nothing and the stored offset is still 23.
\<close>

theorem fetch_events_truncation_counterexample:
  "last_positions (snd (fetch_events (sample_fs two_lines) (sample_connector 0))) auth_log = Some 23 \<and>
   get_file_size (sample_fs rotated) auth_log = 4 \<and>
   fst (fetch_events (sample_fs rotated) (snd (fetch_events (sample_fs two_lines) (sample_connector 0)))) = [] \<and>
   last_positions (snd (fetch_events (sample_fs rotated)
       (snd (fetch_events (sample_fs two_lines) (sample_connector 0))))) auth_log = Some 23"
  by code_simp

text \<open>
  Claim C2, amended: when the size of a file is below its stored offset, the round of
  \<open>fetch_events\<close> for that file yields no record and changes no offset, and after the whole
  call the stored offset of the file is what it was.
\<close>

theorem fetch_events_truncated_file:
  assumes "get_file_size fs path < last_position (last_positions c) path"
  shows "fetch_file fs (last_positions c) path = ([], last_positions c) \<and>
     last_positions (snd (fetch_events fs c)) path = last_positions c path"
proof -
  have 1: "fetch_file fs (last_positions c) path = ([], last_positions c)"
    by (rule fetch_file_idle) (use assms in simp)
  obtain out pos' where f: "fetch_files fs (last_positions c) (log_files c) = (out, pos')"
    by (cases "fetch_files fs (last_positions c) (log_files c)")
  have "pos' path = last_positions c path"
    using fetch_files_positions[of fs "last_positions c" "log_files c" path] f assms by simp
  then have 2: "last_positions (snd (fetch_events fs c)) path = last_positions c path"
    by (simp add: fetch_events_def f)
  from 1 2 show ?thesis by simp
qed

theorem fetch_events_truncated_file_witness:
  "fetch_file (sample_fs rotated) (last_positions (sample_connector 23)) auth_log
      = ([], last_positions (sample_connector 23)) \<and>
   last_positions (snd (fetch_events (sample_fs rotated) (sample_connector 23))) auth_log = Some 23"
proof -
  have h: "get_file_size (sample_fs rotated) auth_log < last_position (last_positions (sample_connector 23)) auth_log"
    by code_simp
  have p: "last_positions (sample_connector 23) auth_log = Some 23"
    by (simp add: sample_connector_def)
  show ?thesis
    using fetch_events_truncated_file[OF h] p by simp
qed

section \<open>Profiles of users without history\<close>

lemma login_hour_column_none:
  assumes "\<forall>r \<in> set user_data. get (event_type r) \<noteq> Some ''login''"
  shows "login_hour_column user_data hours = []"
proof -
  have "filter (\<lambda>(r, h). get (event_type r) = Some ''login'') (zip user_data hours) = []"
    unfolding filter_empty_conv using assms by (auto dest: set_zip_leftD)
  then show ?thesis by (simp add: login_hour_column_def)
qed

lemma login_hour_range_Nil: "login_hour_range [] = Inr \<lparr> hmin = 9, hmax = 17, havg = 13 \<rparr>"
  by (simp add: login_hour_range_def)

lemma files_none:
  "files_per_day [] = 0" "file_size_range df [] = \<lparr> favg = Some 0, fmax = Some 0 \<rparr>"
  by (simp_all add: files_per_day_def file_size_range_def)

lemma user_profile_Inr:
  assumes "user_profile td df u = Inr p"
  shows "\<exists>hours. normal_login_hours p = 
            (case login_hour_range (login_hour_column (user_rows df u) hours) of Inr x \<Rightarrow> x) \<and>
            (\<exists>x. login_hour_range (login_hour_column (user_rows df u) hours) = Inr x)"
    and "avg_files_per_day p =
           files_per_day (filter (\<lambda>r. get (event_type r) = Some ''file_access'') (user_rows df u))"
    and "typical_file_sizes p =
           file_size_range df (filter (\<lambda>r. get (event_type r) = Some ''file_access'') (user_rows df u))"
proof -
  from assms obtain hours where h: "row_hours td (user_rows df u) = Inr hours"
    unfolding user_profile_def Let_def
    by (cases "row_hours td (user_rows df u)") (simp_all split: if_splits)
  from assms h obtain nm where n: "profile_name df (user_rows df u) u = Inr nm"
    unfolding user_profile_def Let_def
    by (cases "profile_name df (user_rows df u) u") (simp_all split: if_splits)
  from assms h n obtain hr where r: "login_hour_range (login_hour_column (user_rows df u) hours) = Inr hr"
    unfolding user_profile_def Let_def
    by (cases "login_hour_range (login_hour_column (user_rows df u) hours)") (simp_all split: if_splits)
  have p: "p = \<lparr> profile_user_id = u, name = nm, normal_login_hours = hr,
                      normal_countries =
                        (if ''country'' \<in> set (columns df)
                         then unique (map (\<lambda>r. get (country r)) (user_rows df u))
                         else [Some ''United States'']),
                      normal_locations =
                        (if ''location'' \<in> set (columns df)
                         then unique (map (\<lambda>r. get (location r)) (user_rows df u))
                         else [Some ''Unknown'']),
                      avg_files_per_day = files_per_day (filter (\<lambda>r. get (event_type r) = Some ''file_access'') (user_rows df u)),
                      typical_file_sizes = file_size_range df (filter (\<lambda>r. get (event_type r) = Some ''file_access'') (user_rows df u)) \<rparr>"
    using assms unfolding user_profile_def Let_def
    by (simp add: h n r split: if_splits)
  show "\<exists>hours. normal_login_hours p = 
            (case login_hour_range (login_hour_column (user_rows df u) hours) of Inr x \<Rightarrow> x) \<and>
            (\<exists>x. login_hour_range (login_hour_column (user_rows df u) hours) = Inr x)"
    by (rule exI[of _ hours]) (simp add: p r)
  show "avg_files_per_day p =
           files_per_day (filter (\<lambda>r. get (event_type r) = Some ''file_access'') (user_rows df u))"
    by (simp add: p)
  show "typical_file_sizes p =
           file_size_range df (filter (\<lambda>r. get (event_type r) = Some ''file_access'') (user_rows df u))"
    by (simp add: p)
qed

lemma user_profile_defaults:
  assumes "user_profile td df u = Inr p"
  shows "(\<not> (\<exists>r \<in> set (rows df). get (user_id r) = Some u \<and> get (event_type r) = Some ''login'') \<longrightarrow>
            normal_login_hours p = \<lparr> hmin = 9, hmax = 17, havg = 13 \<rparr>) \<and>
         (\<not> (\<exists>r \<in> set (rows df). get (user_id r) = Some u \<and> get (event_type r) = Some ''file_access'') \<longrightarrow>
            avg_files_per_day p = 0 \<and> typical_file_sizes p = \<lparr> favg = Some 0, fmax = Some 0 \<rparr>)"
proof -
  have a: "normal_login_hours p = \<lparr> hmin = 9, hmax = 17, havg = 13 \<rparr>"
    if nl: "\<not> (\<exists>r \<in> set (rows df). get (user_id r) = Some u \<and> get (event_type r) = Some ''login'')"
  proof -
    have "\<forall>r \<in> set (user_rows df u). get (event_type r) \<noteq> Some ''login''"
      using nl by (auto simp add: user_rows_def)
    then have "\<And>hours. login_hour_column (user_rows df u) hours = []"
      by (rule login_hour_column_none)
    then show ?thesis
      using user_profile_Inr(1)[OF assms] by (simp add: login_hour_range_Nil)
  qed
  have b: "avg_files_per_day p = 0 \<and> typical_file_sizes p = \<lparr> favg = Some 0, fmax = Some 0 \<rparr>"
    if nf: "\<not> (\<exists>r \<in> set (rows df). get (user_id r) = Some u \<and> get (event_type r) = Some ''file_access'')"
  proof -
    have "filter (\<lambda>r. get (event_type r) = Some ''file_access'') (user_rows df u) = []"
      unfolding filter_empty_conv using nf by (auto simp add: user_rows_def)
    then show ?thesis
      using user_profile_Inr(2,3)[OF assms] by (simp add: files_none)
  qed
  from a b show ?thesis by blast
qed


lemma row_hours_returns:
  assumes "\<forall>r \<in> set rs. \<forall>s. get (timestamp r) = Some s \<longrightarrow> (\<forall>x. to_datetime s \<noteq> Raises x)"
  shows "\<exists>hours. row_hours to_datetime rs = Inr hours \<and> length hours = length rs \<and>
     (\<forall>i < length rs. \<forall>s h. get (timestamp (rs ! i)) = Some s \<longrightarrow> to_datetime s = Hour h \<longrightarrow>
         hours ! i = Some h)"
  using assms
proof (induction rs)
  case Nil
  then show ?case by simp
next
  case (Cons r rs)
  from Cons.prems have "\<forall>r \<in> set rs. \<forall>s. get (timestamp r) = Some s \<longrightarrow> (\<forall>x. to_datetime s \<noteq> Raises x)"
    by simp
  from Cons.IH[OF this] obtain hours where hs: "row_hours to_datetime rs = Inr hours"
    "length hours = length rs"
    "\<forall>i < length rs. \<forall>s h. get (timestamp (rs ! i)) = Some s \<longrightarrow> to_datetime s = Hour h \<longrightarrow>
         hours ! i = Some h"
    by blast
  have "\<exists>h0. row_hour to_datetime r = Inr h0 \<and>
      (\<forall>s h. get (timestamp r) = Some s \<longrightarrow> to_datetime s = Hour h \<longrightarrow> h0 = Some h)"
  proof (cases "get (timestamp r)")
    case None
    then show ?thesis by (simp add: row_hour_def)
  next
    case (Some s)
    with Cons.prems have nr: "\<forall>x. to_datetime s \<noteq> Raises x" by simp
    show ?thesis
      by (cases "to_datetime s") (use nr in \<open>simp_all add: row_hour_def Some\<close>)
  qed
  then obtain h0 where h0: "row_hour to_datetime r = Inr h0"
    "\<forall>s h. get (timestamp r) = Some s \<longrightarrow> to_datetime s = Hour h \<longrightarrow> h0 = Some h"
    by blast
  have 1: "row_hours to_datetime (r # rs) = Inr (h0 # hours)"
    by (simp add: h0(1) hs(1))
  have 2: "length (h0 # hours) = length (r # rs)"
    by (simp add: hs(2))
  have 3: "\<forall>i < length (r # rs). \<forall>s h. get (timestamp ((r # rs) ! i)) = Some s \<longrightarrow>
      to_datetime s = Hour h \<longrightarrow> (h0 # hours) ! i = Some h"
  proof (intro allI impI)
    fix i s h
    assume i: "i < length (r # rs)" and s: "get (timestamp ((r # rs) ! i)) = Some s"
      and h: "to_datetime s = Hour h"
    show "(h0 # hours) ! i = Some h"
    proof (cases i)
      case 0
      with s h h0(2) show ?thesis by simp
    next
      case (Suc j)
      with i s h hs(3) show ?thesis by simp
    qed
  qed
  from 1 2 3 show ?case by blast
qed

lemma login_hour_column_some:
  assumes len: "length hours = length user_data"
    and hrs: "\<forall>i < length user_data. get (event_type (user_data ! i)) = Some ''login'' \<longrightarrow>
                hours ! i \<noteq> None"
  shows "\<forall>x \<in> set (login_hour_column user_data hours). x \<noteq> None"
proof
  fix x
  assume "x \<in> set (login_hour_column user_data hours)"
  then obtain r where rx: "(r, x) \<in> set (zip user_data hours)"
    and l: "get (event_type r) = Some ''login''"
    by (auto simp add: login_hour_column_def)
  from rx obtain i where i: "i < length user_data" "user_data ! i = r" "hours ! i = x"
    using len by (auto simp add: set_zip)
  with hrs l show "x \<noteq> None" by auto
qed

lemma present_all_some:
  assumes "\<forall>x \<in> set xs. x \<noteq> None" and "xs \<noteq> []"
  shows "present xs \<noteq> []"
proof -
  from assms(2) obtain x rest where xs: "xs = x # rest" by (cases xs) auto
  with assms(1) obtain v where "x = Some v" by (cases x) auto
  with xs show ?thesis by (simp add: present_def)
qed

lemma login_hour_range_returns:
  assumes "\<forall>x \<in> set login_hours. x \<noteq> None"
  shows "\<exists>hr. login_hour_range login_hours = Inr hr"
proof (cases "login_hours = []")
  case True
  then show ?thesis by (simp add: login_hour_range_def)
next
  case False
  with assms have "present login_hours \<noteq> []" by (rule present_all_some)
  then obtain h t where p: "present login_hours = h # t" by (cases "present login_hours") auto
  with False show ?thesis
    by (simp add: login_hour_range_def int_min_def int_max_def)
qed

lemma profile_name_returns:
  assumes "user_data \<noteq> []"
  shows "\<exists>nm. profile_name df user_data uid = Inr nm"
  using assms by (cases user_data) (simp_all add: profile_name_def)

lemma user_profile_returns:
  assumes cols: "''timestamp'' \<in> set (columns df)" "''event_type'' \<in> set (columns df)"
    and stamps: "\<forall>r \<in> set (rows df). \<forall>s. get (timestamp r) = Some s \<longrightarrow> (\<forall>x. to_datetime s \<noteq> Raises x)"
    and logins: "\<forall>r \<in> set (rows df). get (event_type r) = Some ''login'' \<longrightarrow>
                   (\<exists>s h. get (timestamp r) = Some s \<and> to_datetime s = Hour h)"
    and row: "r0 \<in> set (rows df)" "get (user_id r0) = Some u"
  shows "\<exists>p. user_profile to_datetime df u = Inr p"
proof -
  have sub: "set (user_rows df u) \<subseteq> set (rows df)"
    by (auto simp add: user_rows_def)
  have ne: "user_rows df u \<noteq> []"
    using row by (auto simp add: user_rows_def filter_empty_conv)
  have "\<forall>r \<in> set (user_rows df u). \<forall>s. get (timestamp r) = Some s \<longrightarrow> (\<forall>x. to_datetime s \<noteq> Raises x)"
    using stamps sub by blast
  from row_hours_returns[OF this] obtain hours where
    h: "row_hours to_datetime (user_rows df u) = Inr hours"
    and len: "length hours = length (user_rows df u)"
    and hrs: "\<forall>i < length (user_rows df u). \<forall>s h. get (timestamp (user_rows df u ! i)) = Some s \<longrightarrow>
        to_datetime s = Hour h \<longrightarrow> hours ! i = Some h"
    by blast
  have "\<forall>i < length (user_rows df u). get (event_type (user_rows df u ! i)) = Some ''login'' \<longrightarrow>
      hours ! i \<noteq> None"
  proof (intro allI impI)
    fix i
    assume i: "i < length (user_rows df u)"
      and l: "get (event_type (user_rows df u ! i)) = Some ''login''"
    from i sub have "user_rows df u ! i \<in> set (rows df)"
      using nth_mem by blast
    with logins l obtain s hh where "get (timestamp (user_rows df u ! i)) = Some s" "to_datetime s = Hour hh"
      by blast
    with hrs i have "hours ! i = Some hh" by blast
    then show "hours ! i \<noteq> None" by simp
  qed
  with len have "\<forall>x \<in> set (login_hour_column (user_rows df u) hours). x \<noteq> None"
    by (rule login_hour_column_some)
  then obtain hr where r: "login_hour_range (login_hour_column (user_rows df u) hours) = Inr hr"
    using login_hour_range_returns by blast
  obtain nm where n: "profile_name df (user_rows df u) u = Inr nm"
    using profile_name_returns[OF ne] by blast
  show ?thesis
    unfolding user_profile_def Let_def by (simp add: cols h n r)
qed

lemma build_profiles_Inr:
  assumes "build_profiles td df ids acc = Inr P"
  shows "(\<forall>uid. Some uid \<in> set ids \<longrightarrow> (\<exists>p. P uid = Some p \<and> user_profile td df uid = Inr p)) \<and>
     (\<forall>uid. Some uid \<notin> set ids \<longrightarrow> P uid = acc uid)"
  using assms
proof (induction ids arbitrary: acc)
  case Nil
  then show ?case by simp
next
  case (Cons i ids)
  show ?case
  proof (cases i)
    case None
    with Cons.prems show ?thesis by simp
  next
    case (Some u)
    with Cons.prems obtain p where p: "user_profile td df u = Inr p"
      by (cases "user_profile td df u") simp_all
    with Cons.prems Some have b: "build_profiles td df ids (acc(u \<mapsto> p)) = Inr P" by simp
    note ih = Cons.IH[OF b]
    have 1: "\<exists>q. P uid = Some q \<and> user_profile td df uid = Inr q" if "Some uid \<in> set (i # ids)" for uid
    proof (cases "Some uid \<in> set ids")
      case True
      with ih show ?thesis by blast
    next
      case False
      with that Some have "uid = u" by simp
      moreover from ih False have "P uid = (acc(u \<mapsto> p)) uid" by blast
      ultimately show ?thesis using p by simp
    qed
    have 2: "P uid = acc uid" if "Some uid \<notin> set (i # ids)" for uid
    proof -
      from that Some have "uid \<noteq> u" "Some uid \<notin> set ids" by auto
      with ih show ?thesis by simp
    qed
    from 1 2 show ?thesis by blast
  qed
qed

lemma build_profiles_returns:
  assumes "None \<notin> set ids"
    and "\<forall>uid. Some uid \<in> set ids \<longrightarrow> (\<exists>p. user_profile td df uid = Inr p)"
  shows "\<exists>P. build_profiles td df ids acc = Inr P"
  using assms
proof (induction ids arbitrary: acc)
  case Nil
  then show ?case by simp
next
  case (Cons i ids)
  from Cons.prems obtain u where i: "i = Some u" by (cases i) auto
  with Cons.prems obtain p where p: "user_profile td df u = Inr p" by auto
  have "\<exists>P. build_profiles td df ids (acc(u \<mapsto> p)) = Inr P"
    by (rule Cons.IH) (use Cons.prems in auto)
  then show ?case by (simp add: i p)
qed

lemma set_unique: "set (unique xs) = set xs"
  by (simp add: unique_def)

text \<open>
  Claim C8, as stated: training on an empty batch still produces a default profile for a user
  with no events.  The loop of \<open>create_user_profiles\<close> runs over the user ids of the batch:
  on a frame with no row it builds the empty table, which has a profile for nobody.
\<close>

theorem create_user_profiles_empty_batch_counterexample:
  "create_user_profiles iso_hour empty_frame = Inr Map.empty"
  by (simp add: create_user_profiles_def empty_frame_def event_columns_def unique_def)

text \<open>
  Claim C8, amended.  On a frame that has the columns \<open>user_id\<close>, \<open>timestamp\<close> and
  \<open>event_type\<close>, a user id in every row, no timestamp that the parser rejects and an hour
  for every login row, \<open>create_user_profiles\<close> returns a table.  Whenever it returns a table,
  every user with a row in the batch has a profile; the profile of a user without login rows
  has the hours 9, 17 and 13, and the profile of a user without file-access rows has zero
  files per day and zero average and largest file size; a user without a row in the batch
  has no profile.
\<close>

theorem create_user_profiles_defaults:
  "(''user_id'' \<in> set (columns df) \<and> ''timestamp'' \<in> set (columns df) \<and>
    ''event_type'' \<in> set (columns df) \<and>
    (\<forall>r \<in> set (rows df). get (user_id r) \<noteq> None) \<and>
    (\<forall>r \<in> set (rows df). \<forall>s. get (timestamp r) = Some s \<longrightarrow> (\<forall>x. to_datetime s \<noteq> Raises x)) \<and>
    (\<forall>r \<in> set (rows df). get (event_type r) = Some ''login'' \<longrightarrow>
        (\<exists>s h. get (timestamp r) = Some s \<and> to_datetime s = Hour h))
    \<longrightarrow> (\<exists>P. create_user_profiles to_datetime df = Inr P)) \<and>
   (\<forall>P. create_user_profiles to_datetime df = Inr P \<longrightarrow>
      (\<forall>u. (\<exists>r \<in> set (rows df). get (user_id r) = Some u) \<longrightarrow>
         (\<exists>p. P u = Some p \<and>
            (\<not> (\<exists>r \<in> set (rows df). get (user_id r) = Some u \<and> get (event_type r) = Some ''login'') \<longrightarrow>
               normal_login_hours p = \<lparr> hmin = 9, hmax = 17, havg = 13 \<rparr>) \<and>
            (\<not> (\<exists>r \<in> set (rows df). get (user_id r) = Some u \<and>
                   get (event_type r) = Some ''file_access'') \<longrightarrow>
               avg_files_per_day p = 0 \<and>
               typical_file_sizes p = \<lparr> favg = Some 0, fmax = Some 0 \<rparr>))) \<and>
      (\<forall>u. \<not> (\<exists>r \<in> set (rows df). get (user_id r) = Some u) \<longrightarrow> P u = None))"
proof (intro conjI impI allI)
  assume wf: "''user_id'' \<in> set (columns df) \<and> ''timestamp'' \<in> set (columns df) \<and>
    ''event_type'' \<in> set (columns df) \<and>
    (\<forall>r \<in> set (rows df). get (user_id r) \<noteq> None) \<and>
    (\<forall>r \<in> set (rows df). \<forall>s. get (timestamp r) = Some s \<longrightarrow> (\<forall>x. to_datetime s \<noteq> Raises x)) \<and>
    (\<forall>r \<in> set (rows df). get (event_type r) = Some ''login'' \<longrightarrow>
        (\<exists>s h. get (timestamp r) = Some s \<and> to_datetime s = Hour h))"
  let ?ids = "unique (map (\<lambda>r. get (user_id r)) (rows df))"
  have 1: "None \<notin> set ?ids"
    using wf by (auto simp add: set_unique)
  have 2: "\<forall>uid. Some uid \<in> set ?ids \<longrightarrow> (\<exists>p. user_profile to_datetime df uid = Inr p)"
  proof (intro allI impI)
    fix uid
    assume "Some uid \<in> set ?ids"
    then obtain r0 where r0: "r0 \<in> set (rows df)" "get (user_id r0) = Some uid"
      by (auto simp add: set_unique)
    show "\<exists>p. user_profile to_datetime df uid = Inr p"
      by (rule user_profile_returns[where ?r0.0 = r0]) (use wf r0 in simp_all)
  qed
  from build_profiles_returns[OF 1 2] wf
  show "\<exists>P. create_user_profiles to_datetime df = Inr P"
    by (simp add: create_user_profiles_def)
next
  fix P u
  assume c: "create_user_profiles to_datetime df = Inr P"
  let ?ids = "unique (map (\<lambda>r. get (user_id r)) (rows df))"
  from c have b: "build_profiles to_datetime df ?ids Map.empty = Inr P"
    by (simp add: create_user_profiles_def split: if_splits)
  note bi = build_profiles_Inr[OF b]
  {
    assume "\<exists>r \<in> set (rows df). get (user_id r) = Some u"
    then have "Some u \<in> set ?ids"
      by (auto simp add: set_unique intro: rev_image_eqI)
    with bi obtain p where p: "P u = Some p" "user_profile to_datetime df u = Inr p" by blast
    from p(1) user_profile_defaults[OF p(2)]
    show "\<exists>p. P u = Some p \<and>
            (\<not> (\<exists>r \<in> set (rows df). get (user_id r) = Some u \<and> get (event_type r) = Some ''login'') \<longrightarrow>
               normal_login_hours p = \<lparr> hmin = 9, hmax = 17, havg = 13 \<rparr>) \<and>
            (\<not> (\<exists>r \<in> set (rows df). get (user_id r) = Some u \<and>
                   get (event_type r) = Some ''file_access'') \<longrightarrow>
               avg_files_per_day p = 0 \<and>
               typical_file_sizes p = \<lparr> favg = Some 0, fmax = Some 0 \<rparr>)"
      by blast
  }
  {
    assume "\<not> (\<exists>r \<in> set (rows df). get (user_id r) = Some u)"
    then have "Some u \<notin> set ?ids"
      by (auto simp add: set_unique)
    with bi show "P u = None" by simp
  }
qed


theorem create_user_profiles_defaults_witness:
  "\<exists>P p. create_user_profiles iso_hour logout_frame = Inr P \<and> P 1 = Some p \<and>
     normal_login_hours p = \<lparr> hmin = 9, hmax = 17, havg = 13 \<rparr> \<and>
     avg_files_per_day p = 0 \<and>
     typical_file_sizes p = \<lparr> favg = Some 0, fmax = Some 0 \<rparr> \<and> P 2 = None"
proof -
  have rws: "rows logout_frame = [logout_row]"
    by (simp add: logout_frame_def)
  have cols: "''user_id'' \<in> set (columns logout_frame)" "''timestamp'' \<in> set (columns logout_frame)"
    "''event_type'' \<in> set (columns logout_frame)"
    by (simp_all add: logout_frame_def event_columns_def)
  have uid: "get (user_id logout_row) = Some 1"
    by (simp add: logout_row_def empty_event_def)
  have ty: "get (event_type logout_row) = Some ''logout''"
    by (simp add: logout_row_def empty_event_def)
  have ts: "get (timestamp logout_row) = Some ''2024-01-15T17:30:00''"
    by (simp add: logout_row_def empty_event_def)
  have hr: "iso_hour ''2024-01-15T17:30:00'' = Hour 17"
    by code_simp
  have wf: "''user_id'' \<in> set (columns logout_frame) \<and> ''timestamp'' \<in> set (columns logout_frame) \<and>
    ''event_type'' \<in> set (columns logout_frame) \<and>
    (\<forall>r \<in> set (rows logout_frame). get (user_id r) \<noteq> None) \<and>
    (\<forall>r \<in> set (rows logout_frame). \<forall>s. get (timestamp r) = Some s \<longrightarrow> (\<forall>x. iso_hour s \<noteq> Raises x)) \<and>
    (\<forall>r \<in> set (rows logout_frame). get (event_type r) = Some ''login'' \<longrightarrow>
        (\<exists>s h. get (timestamp r) = Some s \<and> iso_hour s = Hour h))"
    by (simp add: rws cols uid ty ts hr)
  note dflt = create_user_profiles_defaults[of logout_frame iso_hour]
  from dflt wf obtain P where P: "create_user_profiles iso_hour logout_frame = Inr P"
    by blast
  have in1: "\<exists>r \<in> set (rows logout_frame). get (user_id r) = Some 1"
    by (simp add: rws uid)
  have nl: "\<not> (\<exists>r \<in> set (rows logout_frame). get (user_id r) = Some 1 \<and> get (event_type r) = Some ''login'')"
    by (simp add: rws ty)
  have nf: "\<not> (\<exists>r \<in> set (rows logout_frame). get (user_id r) = Some 1 \<and>
      get (event_type r) = Some ''file_access'')"
    by (simp add: rws ty)
  have out2: "\<not> (\<exists>r \<in> set (rows logout_frame). get (user_id r) = Some 2)"
    by (simp add: rws uid)
  from dflt P in1 obtain p where p: "P 1 = Some p"
    "\<not> (\<exists>r \<in> set (rows logout_frame). get (user_id r) = Some 1 \<and> get (event_type r) = Some ''login'') \<longrightarrow>
       normal_login_hours p = \<lparr> hmin = 9, hmax = 17, havg = 13 \<rparr>"
    "\<not> (\<exists>r \<in> set (rows logout_frame). get (user_id r) = Some 1 \<and>
          get (event_type r) = Some ''file_access'') \<longrightarrow>
       avg_files_per_day p = 0 \<and> typical_file_sizes p = \<lparr> favg = Some 0, fmax = Some 0 \<rparr>"
    by blast
  from dflt P out2 have "P 2 = None" by blast
  with P p nl nf show ?thesis by blast
qed

end
